theory Spec2Isabelle
  imports Complex_Main "HOL-Library.AList" "HOL-Library.Char_ord" "HOL-Library.List_Lexorder"
begin

section \<open>Python values used by the client\<close>

text \<open>
  The development embeds \<^verbatim>\<open>ollamavision_gui.py\<close>: the class \<^verbatim>\<open>OllamaVisionAPI\<close> (the
  gateway client) and the connection, catalog and settings handlers of
  \<^verbatim>\<open>OllamaVisionGUI\<close>.

  A Python \<^verbatim>\<open>str\<close> is a \<open>string\<close>; a character stands for the code point of the same
  number, so the strings of the model are the Python strings over code points below 256.
  With \<open>Char_ord\<close> and \<open>List_Lexorder\<close> the order on \<open>string\<close> is the lexicographic
  order by code point, which is the order \<^verbatim>\<open>list.sort()\<close> uses on strings.
  A Python \<^verbatim>\<open>float\<close> is carried as a \<open>real\<close>: the program stores, sends and compares the
  sampling parameters but never computes with them.
\<close>

definition truthy :: "string \<Rightarrow> bool" where
  "truthy s = (s \<noteq> [])"

fun truthy_opt :: "string option \<Rightarrow> bool" where
  "truthy_opt None = False"
| "truthy_opt (Some s) = truthy s"

text \<open>\<^verbatim>\<open>s.rstrip('/')\<close>.\<close>

definition rstrip_slash :: "string \<Rightarrow> string" where
  "rstrip_slash s = rev (dropWhile (\<lambda>c. c = CHR ''/'') (rev s))"

text \<open>
  \<^verbatim>\<open>str.isspace\<close> on one code point below 256: TAB to CR, FS to US, space, NEL and
  no-break space.
\<close>

definition py_isspace :: "char \<Rightarrow> bool" where
  "py_isspace c =
     (let n = (of_char c :: nat)
      in (9 \<le> n \<and> n \<le> 13) \<or> (28 \<le> n \<and> n \<le> 32) \<or> n = 133 \<or> n = 160)"

text \<open>\<^verbatim>\<open>s.strip()\<close>.\<close>

definition strip :: "string \<Rightarrow> string" where
  "strip s = rev (dropWhile py_isspace (rev (dropWhile py_isspace s)))"

text \<open>
  \<^verbatim>\<open>str.lower\<close> on one code point below 256: the ASCII capitals and the Latin-1
  capitals (all of 192 to 222 but the multiplication sign) move up by 32.
\<close>

definition py_lower_char :: "char \<Rightarrow> char" where
  "py_lower_char c =
     (let n = (of_char c :: nat)
      in if (65 \<le> n \<and> n \<le> 90) \<or> (192 \<le> n \<and> n \<le> 222 \<and> n \<noteq> 215)
         then char_of (n + 32) else c)"

definition lower :: "string \<Rightarrow> string" where
  "lower s = map py_lower_char s"

text \<open>\<^verbatim>\<open>s.startswith(p)\<close> and the substring test \<^verbatim>\<open>p in s\<close>.\<close>

fun startswith :: "string \<Rightarrow> string \<Rightarrow> bool" where
  "startswith s [] = True"
| "startswith [] (p # ps) = False"
| "startswith (c # cs) (p # ps) = (c = p \<and> startswith cs ps)"

fun str_contains :: "string \<Rightarrow> string \<Rightarrow> bool" where
  "str_contains [] p = (p = [])"
| "str_contains (c # cs) p = (startswith (c # cs) p \<or> str_contains cs p)"

text \<open>\<^verbatim>\<open>s.endswith(p)\<close>.\<close>

definition endswith :: "string \<Rightarrow> string \<Rightarrow> bool" where
  "endswith s p = startswith (rev s) (rev p)"

text \<open>\<^verbatim>\<open>str(n)\<close> for a length, as the f-strings of the count label print it.\<close>

definition digit_char :: "nat \<Rightarrow> char" where
  "digit_char d = (''0123456789'' ! d)"

function str_nat :: "nat \<Rightarrow> string" where
  "str_nat n = (if n < 10 then [digit_char n] else str_nat (n div 10) @ [digit_char (n mod 10)])"
  by pat_completeness auto
termination
  by (relation "measure id") auto

declare str_nat.simps [simp del]

section \<open>JSON bodies, requests and the network\<close>

text \<open>
  A request body is a Python \<^verbatim>\<open>dict\<close> with string keys: an association list in
  insertion order, written by \<open>AList.update\<close> (an existing key keeps its place, a new
  key goes to the end, as in Python).
\<close>

datatype jval = JNone | JBool bool | JInt int | JFloat real | JStr string

type_synonym pydict = "(string \<times> jval) list"

fun jstr_opt :: "string option \<Rightarrow> jval" where
  "jstr_opt None = JNone"
| "jstr_opt (Some s) = JStr s"

datatype http_method = GET | POST

record http_request =
  req_method :: http_method
  req_url :: string
  req_headers :: "(string \<times> string) list"
  req_json :: "pydict option"
  req_timeout :: nat

text \<open>
  The decoded JSON object of a response, and every result \<^verbatim>\<open>dict\<close> the client hands to
  its callers: the keys the program reads, each absent (\<open>None\<close>) or present. A reply is
  taken to follow the schema of the gateway and provider APIs: \<^verbatim>\<open>success\<close> is a boolean,
  \<^verbatim>\<open>models\<close> a list of strings, \<^verbatim>\<open>data\<close> a list of objects of which the optional
  \<^verbatim>\<open>id\<close> string is kept.
\<close>

record reply =
  j_success :: "bool option"
  j_message :: "string option"
  j_session_id :: "string option"
  j_models :: "string list option"
  j_data :: "string option list option"
  j_response :: "string option"
  j_error :: "string option"

definition empty_reply :: reply where
  "empty_reply = \<lparr>j_success = None, j_message = None, j_session_id = None, j_models = None,
     j_data = None, j_response = None, j_error = None\<rparr>"

text \<open>\<^verbatim>\<open>{"success": False, "message": m}\<close>.\<close>

definition failure :: "string \<Rightarrow> reply" where
  "failure m = empty_reply\<lparr>j_success := Some False, j_message := Some m\<rparr>"

text \<open>\<^verbatim>\<open>result.get("success", False)\<close> and \<^verbatim>\<open>result.get("message", d)\<close>.\<close>

definition get_success :: "reply \<Rightarrow> bool" where
  "get_success r = (case j_success r of None \<Rightarrow> False | Some b \<Rightarrow> b)"

definition get_message :: "reply \<Rightarrow> string \<Rightarrow> string" where
  "get_message r d = (case j_message r of None \<Rightarrow> d | Some m \<Rightarrow> m)"

text \<open>
  The \<^verbatim>\<open>requests\<close> library either raises a \<^verbatim>\<open>RequestException\<close> (connection refused,
  timeout, an error status turned into an exception by \<^verbatim>\<open>raise_for_status\<close>), of which
  the model keeps \<^verbatim>\<open>str(e)\<close>, or yields the decoded JSON of the response.
\<close>

datatype http_result = RequestException string | Json reply

text \<open>
  The settings document \<^verbatim>\<open>ollamavision_settings.json\<close>: a flat object whose keys may each
  be missing.
\<close>

record settings =
  st_swarmui_url :: "string option"
  st_backend :: "string option"
  st_ollama_url :: "string option"
  st_api_key :: "string option"
  st_default_model :: "string option"
  st_session_id :: "string option"
  st_openai_api_key :: "string option"
  st_openrouter_api_key :: "string option"
  st_textgen_url :: "string option"
  st_temperature :: "real option"
  st_max_tokens :: "int option"
  st_top_p :: "real option"
  st_top_k :: "int option"
  st_repeat_penalty :: "real option"
  st_seed :: "int option"
  st_frequency_penalty :: "real option"
  st_presence_penalty :: "real option"
  st_min_p :: "real option"
  st_top_a :: "real option"

text \<open>
  Everything outside the process: the remote side answers the \<open>n\<close>-th request of a run
  by \<open>net n\<close>; \<open>sent\<close> records the requests issued so far, oldest first;
  \<open>settings_file\<close> is the settings document on disk (\<open>None\<close>: no file),
  \<open>disk_error\<close> the \<^verbatim>\<open>str(e)\<close> of the exception that opening the file for writing
  raises, if it does; \<open>listdir\<close> is \<^verbatim>\<open>os.listdir\<close> (\<open>Inl\<close>: it raises).
\<close>

record world =
  net :: "nat \<Rightarrow> http_request \<Rightarrow> http_result"
  sent :: "http_request list"
  settings_file :: "settings option"
  disk_error :: "string option"
  listdir :: "string \<Rightarrow> string + string list"

definition http :: "http_request \<Rightarrow> world \<Rightarrow> http_result \<times> world" where
  "http r w = (net w (length (sent w)) r, w\<lparr>sent := sent w @ [r]\<rparr>)"

section \<open>The gateway client \<^verbatim>\<open>OllamaVisionAPI\<close>\<close>

datatype exn = Exception string

record api_client =
  base_url :: string
  headers :: "(string \<times> string) list"
  session_id :: "string option"

text \<open>\<^verbatim>\<open>OllamaVisionAPI.__init__\<close>.\<close>

definition OllamaVisionAPI :: "string \<Rightarrow> api_client" where
  "OllamaVisionAPI url =
     \<lparr>base_url = rstrip_slash url,
      headers = [(''Content-Type'', ''application/json'')],
      session_id = None\<rparr>"

text \<open>
  \<^verbatim>\<open>get_swarmui_session\<close>. The result \<^verbatim>\<open>dict\<close> of the success branch also holds the raw
  response under \<^verbatim>\<open>"data"\<close>, which no caller reads and the model leaves out.
\<close>

definition get_swarmui_session :: "api_client \<Rightarrow> world \<Rightarrow> (reply \<times> api_client) \<times> world" where
  "get_swarmui_session api w =
     (case http \<lparr>req_method = POST, req_url = base_url api @ ''/API/GetNewSession'',
                 req_headers = headers api, req_json = Some [], req_timeout = 60\<rparr> w of
        (RequestException e, w') \<Rightarrow>
          ((failure (''Failed to get SwarmUI session: '' @ e), api), w')
      | (Json d, w') \<Rightarrow>
          (case j_session_id d of
             Some sid \<Rightarrow>
               ((empty_reply\<lparr>j_success := Some True, j_session_id := Some sid\<rparr>,
                 api\<lparr>session_id := Some sid\<rparr>), w')
           | None \<Rightarrow> ((failure ''No session_id in response'', api), w')))"

text \<open>
  \<^verbatim>\<open>make_request\<close>, in two steps: the body with the session field, then the call. A
  \<^verbatim>\<open>RequestException\<close> is raised again as a plain \<^verbatim>\<open>Exception\<close> (\<open>Inl\<close>).
\<close>

definition data_with_session :: "api_client \<Rightarrow> pydict \<Rightarrow> pydict" where
  "data_with_session api data =
     (if truthy_opt (session_id api)
      then AList.update ''session_id'' (jstr_opt (session_id api)) data
      else data)"

definition make_request :: "api_client \<Rightarrow> string \<Rightarrow> pydict \<Rightarrow> world \<Rightarrow> (exn + reply) \<times> world" where
  "make_request api endpoint data w =
     (case http \<lparr>req_method = POST, req_url = base_url api @ ''/API/'' @ endpoint,
                 req_headers = headers api, req_json = Some (data_with_session api data),
                 req_timeout = 120\<rparr> w of
        (RequestException e, w') \<Rightarrow> (Inl (Exception (''API request failed: '' @ e)), w')
      | (Json d, w') \<Rightarrow> (Inr d, w'))"

text \<open>The \<^verbatim>\<open>data\<close> dictionaries of the five gateway calls, and the calls.\<close>

definition connect_ollama_data :: "string \<Rightarrow> bool \<Rightarrow> pydict" where
  "connect_ollama_data ollama_url show_all =
     [(''ollamaUrl'', JStr ollama_url), (''showAllModels'', JBool show_all)]"

definition connect_ollama :: "api_client \<Rightarrow> string \<Rightarrow> bool \<Rightarrow> world \<Rightarrow> (exn + reply) \<times> world" where
  "connect_ollama api ollama_url show_all =
     make_request api ''ConnectToOllamaAsync'' (connect_ollama_data ollama_url show_all)"

definition connect_textgen_data :: "string \<Rightarrow> pydict" where
  "connect_textgen_data textgen_url = [(''textgenUrl'', JStr textgen_url)]"

definition connect_textgen :: "api_client \<Rightarrow> string \<Rightarrow> world \<Rightarrow> (exn + reply) \<times> world" where
  "connect_textgen api textgen_url =
     make_request api ''ConnectToTextGenAsync'' (connect_textgen_data textgen_url)"

text \<open>
  The part the three generation calls share: \<^verbatim>\<open>if system_prompt: ...\<close>, then the
  \<^verbatim>\<open>if backend_type == "ollama": ... elif backend_type in ["openai", "openrouter"]: ...\<close>
  chain (the batch call has no system prompt and passes \<open>None\<close>).
\<close>

definition add_system_prompt :: "string option \<Rightarrow> pydict \<Rightarrow> pydict" where
  "add_system_prompt system_prompt data =
     (if truthy_opt system_prompt
      then AList.update ''systemPrompt'' (jstr_opt system_prompt) data
      else data)"

definition add_backend_fields :: "string \<Rightarrow> string \<Rightarrow> string option \<Rightarrow> string \<Rightarrow> pydict \<Rightarrow> pydict" where
  "add_backend_fields backend_type ollama_url api_key site_name data =
     (if backend_type = ''ollama'' then AList.update ''ollamaUrl'' (JStr ollama_url) data
      else if backend_type \<in> set [''openai'', ''openrouter''] then
        (let data' = AList.update ''apiKey'' (jstr_opt api_key) data
         in if backend_type = ''openrouter''
            then AList.update ''siteName'' (JStr site_name) data' else data')
      else data)"

definition analyze_image_data ::
  "string \<Rightarrow> string \<Rightarrow> string \<Rightarrow> string \<Rightarrow> real \<Rightarrow> int \<Rightarrow> string \<Rightarrow> string option \<Rightarrow> string
     \<Rightarrow> string option \<Rightarrow> pydict" where
  "analyze_image_data image_data model backend_type prompt temperature max_tokens ollama_url
       api_key site_name system_prompt =
     add_backend_fields backend_type ollama_url api_key site_name
       (add_system_prompt system_prompt
          [(''model'', JStr model), (''backendType'', JStr backend_type),
           (''imageData'', JStr image_data), (''prompt'', JStr prompt),
           (''temperature'', JFloat temperature), (''maxTokens'', JInt max_tokens)])"

definition analyze_image ::
  "api_client \<Rightarrow> string \<Rightarrow> string \<Rightarrow> string \<Rightarrow> string \<Rightarrow> real \<Rightarrow> int \<Rightarrow> string \<Rightarrow> string option
     \<Rightarrow> string \<Rightarrow> string option \<Rightarrow> world \<Rightarrow> (exn + reply) \<times> world" where
  "analyze_image api image_data model backend_type prompt temperature max_tokens ollama_url
       api_key site_name system_prompt =
     make_request api ''AnalyzeImageAsync''
       (analyze_image_data image_data model backend_type prompt temperature max_tokens
          ollama_url api_key site_name system_prompt)"

definition batch_caption_images_data ::
  "string \<Rightarrow> string \<Rightarrow> string \<Rightarrow> string \<Rightarrow> string \<Rightarrow> real \<Rightarrow> int \<Rightarrow> string \<Rightarrow> string option
     \<Rightarrow> string \<Rightarrow> pydict" where
  "batch_caption_images_data folder_path model backend_type caption_style trigger_word
       temperature max_tokens ollama_url api_key site_name =
     add_backend_fields backend_type ollama_url api_key site_name
       [(''folderPath'', JStr folder_path), (''model'', JStr model),
        (''backendType'', JStr backend_type), (''captionStyle'', JStr caption_style),
        (''triggerWord'', JStr trigger_word), (''temperature'', JFloat temperature),
        (''maxTokens'', JInt max_tokens)]"

definition batch_caption_images ::
  "api_client \<Rightarrow> string \<Rightarrow> string \<Rightarrow> string \<Rightarrow> string \<Rightarrow> string \<Rightarrow> real \<Rightarrow> int \<Rightarrow> string
     \<Rightarrow> string option \<Rightarrow> string \<Rightarrow> world \<Rightarrow> (exn + reply) \<times> world" where
  "batch_caption_images api folder_path model backend_type caption_style trigger_word
       temperature max_tokens ollama_url api_key site_name =
     make_request api ''BatchCaptionImagesAsync''
       (batch_caption_images_data folder_path model backend_type caption_style trigger_word
          temperature max_tokens ollama_url api_key site_name)"

definition enhance_text_prompt_data ::
  "string \<Rightarrow> string \<Rightarrow> string \<Rightarrow> real \<Rightarrow> int \<Rightarrow> string \<Rightarrow> string option \<Rightarrow> string
     \<Rightarrow> string option \<Rightarrow> pydict" where
  "enhance_text_prompt_data model backend_type prompt temperature max_tokens ollama_url
       api_key site_name system_prompt =
     add_backend_fields backend_type ollama_url api_key site_name
       (add_system_prompt system_prompt
          [(''model'', JStr model), (''backendType'', JStr backend_type),
           (''prompt'', JStr prompt), (''temperature'', JFloat temperature),
           (''maxTokens'', JInt max_tokens)])"

definition enhance_text_prompt ::
  "api_client \<Rightarrow> string \<Rightarrow> string \<Rightarrow> string \<Rightarrow> real \<Rightarrow> int \<Rightarrow> string \<Rightarrow> string option \<Rightarrow> string
     \<Rightarrow> string option \<Rightarrow> world \<Rightarrow> (exn + reply) \<times> world" where
  "enhance_text_prompt api model backend_type prompt temperature max_tokens ollama_url
       api_key site_name system_prompt =
     make_request api ''EnhanceTextPromptAsync''
       (enhance_text_prompt_data model backend_type prompt temperature max_tokens
          ollama_url api_key site_name system_prompt)"

text \<open>The default of the \<^verbatim>\<open>site_name\<close> argument, which no caller overrides.\<close>

definition default_site_name :: string where
  "default_site_name = ''SwarmUI''"

text \<open>
  \<^verbatim>\<open>get_openai_models\<close> and \<^verbatim>\<open>get_openrouter_models\<close> differ in the address and in the
  message only. The loop keeps \<^verbatim>\<open>model.get("id", "")\<close> of every entry when it is truthy.
\<close>

definition entry_id :: "string option \<Rightarrow> string" where
  "entry_id e = (case e of None \<Rightarrow> [] | Some i \<Rightarrow> i)"

definition collect_model_ids :: "reply \<Rightarrow> string list" where
  "collect_model_ids d =
     filter truthy (map entry_id (case j_data d of None \<Rightarrow> [] | Some es \<Rightarrow> es))"

definition provider_models :: "string \<Rightarrow> string \<Rightarrow> string \<Rightarrow> world \<Rightarrow> reply \<times> world" where
  "provider_models url label api_key w =
     (case http \<lparr>req_method = GET, req_url = url,
                 req_headers = [(''Authorization'', ''Bearer '' @ api_key),
                                (''Content-Type'', ''application/json'')],
                 req_json = None, req_timeout = 60\<rparr> w of
        (RequestException e, w') \<Rightarrow>
          (failure (''Failed to fetch '' @ label @ '' models: '' @ e), w')
      | (Json d, w') \<Rightarrow>
          (empty_reply\<lparr>j_success := Some True, j_models := Some (collect_model_ids d)\<rparr>, w'))"

definition get_openai_models :: "api_client \<Rightarrow> string \<Rightarrow> world \<Rightarrow> reply \<times> world" where
  "get_openai_models api api_key =
     provider_models ''https://api.openai.com/v1/models'' ''OpenAI'' api_key"

definition get_openrouter_models :: "api_client \<Rightarrow> string \<Rightarrow> world \<Rightarrow> reply \<times> world" where
  "get_openrouter_models api api_key =
     provider_models ''https://openrouter.ai/api/v1/models'' ''OpenRouter'' api_key"

section \<open>The application state of \<^verbatim>\<open>OllamaVisionGUI\<close>\<close>

text \<open>
  The attributes and Tk variables of the application object that the connection, catalog,
  settings and generation handlers read or write. A Tk variable holds the value its
  \<^verbatim>\<open>get()\<close> returns. \<open>models_listbox\<close> is the content of the list box and
  \<open>curselection\<close> its selected row; \<open>dialogs\<close> collects the message boxes shown,
  oldest first. Widget layout, styling and the progress display are left out, and a
  worker thread is run to its end at the place where it is started.
\<close>

datatype dialog = ShowError string string | ShowWarning string string | ShowInfo string string

record gui =
  api :: "api_client option"
  current_image_data :: "string option"
  available_models :: "string list"
  all_models :: "string list"
  filtered_models :: "string list"
  openai_api_key :: string
  openrouter_api_key :: string
  textgen_url :: string
  selected_model :: "string option"
  is_connected :: bool
  temperature_var :: real
  max_tokens_var :: int
  top_p_var :: real
  top_k_var :: int
  repeat_penalty_var :: real
  seed_var :: int
  frequency_penalty_var :: real
  presence_penalty_var :: real
  min_p_var :: real
  top_a_var :: real
  default_model_var :: string
  wan_i2v_var :: bool
  swarmui_url_var :: string
  backend_var :: string
  ollama_url_var :: string
  api_key_var :: string
  session_id_var :: string
  model_search_var :: string
  model_count_var :: string
  models_listbox :: "string list"
  curselection :: "nat option"
  model_info_var :: string
  default_model_display_var :: string
  prompt_var :: string
  folder_path_var :: string
  caption_style_var :: string
  trigger_word_var :: string
  enhancement_type_var :: string
  text_input :: string
  image_analysis_text :: string
  text_results_text :: string
  dialogs :: "dialog list"

text \<open>The state that \<^verbatim>\<open>__init__\<close> has built when \<^verbatim>\<open>create_widgets\<close> returns.\<close>

definition created_widgets :: gui where
  "created_widgets =
     \<lparr>api = Some (OllamaVisionAPI ''http://localhost:7801''),
      current_image_data = None,
      available_models = [], all_models = [], filtered_models = [],
      openai_api_key = [], openrouter_api_key = [],
      textgen_url = ''http://localhost:5000'',
      selected_model = None, is_connected = False,
      temperature_var = 0.8, max_tokens_var = 500, top_p_var = 0.7, top_k_var = 40,
      repeat_penalty_var = 1.1, seed_var = - 1, frequency_penalty_var = 0,
      presence_penalty_var = 0, min_p_var = 0, top_a_var = 0,
      default_model_var = [], wan_i2v_var = False,
      swarmui_url_var = ''http://localhost:7801'', backend_var = ''ollama'',
      ollama_url_var = ''http://localhost:11434'', api_key_var = [],
      session_id_var = [], model_search_var = [],
      model_count_var = ''No models loaded'',
      models_listbox = [], curselection = None,
      model_info_var = ''No model selected'',
      default_model_display_var = ''No default model set'',
      prompt_var = ''Describe this image in detail'', folder_path_var = [],
      caption_style_var = ''Danbooru Tags'', trigger_word_var = ''1girl'',
      enhancement_type_var = ''qwen'', text_input = [],
      image_analysis_text = [], text_results_text = [], dialogs = []\<rparr>"

definition showerror :: "string \<Rightarrow> string \<Rightarrow> gui \<Rightarrow> gui" where
  "showerror title msg s = s\<lparr>dialogs := dialogs s @ [ShowError title msg]\<rparr>"

definition showwarning :: "string \<Rightarrow> string \<Rightarrow> gui \<Rightarrow> gui" where
  "showwarning title msg s = s\<lparr>dialogs := dialogs s @ [ShowWarning title msg]\<rparr>"

definition showinfo :: "string \<Rightarrow> string \<Rightarrow> gui \<Rightarrow> gui" where
  "showinfo title msg s = s\<lparr>dialogs := dialogs s @ [ShowInfo title msg]\<rparr>"

text \<open>
  \<^verbatim>\<open>str(e)\<close> of the \<^verbatim>\<open>AttributeError\<close> that a method call on \<^verbatim>\<open>self.api\<close> raises after
  \<^verbatim>\<open>disconnect_backend\<close> has set it to \<^verbatim>\<open>None\<close>.
\<close>

definition no_attribute :: "string \<Rightarrow> string" where
  "no_attribute name = [CHR 0x27] @ ''NoneType'' @ [CHR 0x27] @ '' object has no attribute ''
     @ [CHR 0x27] @ name @ [CHR 0x27]"

subsection \<open>Catalog display, filter and selection\<close>

text \<open>\<^verbatim>\<open>update_models_display\<close>.\<close>

definition update_models_display :: "gui \<Rightarrow> gui" where
  "update_models_display s =
     (let total_models = length (all_models s);
          filtered_count = length (filtered_models s)
      in s\<lparr>curselection := None,
            models_listbox := filtered_models s,
            available_models := filtered_models s,
            model_count_var :=
              (if total_models = 0 then ''No models loaded''
               else if filtered_count = total_models
                 then ''Showing '' @ str_nat total_models @ '' models''
               else ''Showing '' @ str_nat filtered_count @ '' of '' @ str_nat total_models
                      @ '' models'')\<rparr>)"

text \<open>
  \<^verbatim>\<open>filter_models\<close>, which Tk calls at every write to \<^verbatim>\<open>model_search_var\<close>
  (\<^verbatim>\<open>trace('w', ...)\<close>): \<open>set_model_search\<close> is such a write, \<^verbatim>\<open>clear_model_search\<close>
  the write of the empty text.
\<close>

definition filter_models :: "gui \<Rightarrow> gui" where
  "filter_models s =
     (let search_text = lower (model_search_var s)
      in update_models_display
           (s\<lparr>filtered_models :=
                 (if \<not> truthy search_text then all_models s
                  else filter (\<lambda>model. str_contains (lower model) search_text)
                         (all_models s))\<rparr>))"

definition set_model_search :: "string \<Rightarrow> gui \<Rightarrow> gui" where
  "set_model_search text s = filter_models (s\<lparr>model_search_var := text\<rparr>)"

definition clear_model_search :: "gui \<Rightarrow> gui" where
  "clear_model_search s = set_model_search [] s"

text \<open>\<^verbatim>\<open>get_selected_model\<close>.\<close>

definition get_selected_model :: "gui \<Rightarrow> string option" where
  "get_selected_model s =
     (if truthy_opt (selected_model s) then selected_model s
      else (case curselection s of
              None \<Rightarrow> None
            | Some i \<Rightarrow>
                if i < length (available_models s) then Some (available_models s ! i)
                else None))"

text \<open>
  \<^verbatim>\<open>update_model_status_display\<close>: the four status labels show the same text, kept in
  \<open>model_info_var\<close>.
\<close>

definition update_model_status_display :: "gui \<Rightarrow> gui" where
  "update_model_status_display s =
     (let default_model = strip (default_model_var s)
      in s\<lparr>model_info_var :=
              (case get_selected_model s of
                 None \<Rightarrow> ''None selected''
               | Some model \<Rightarrow>
                   if \<not> truthy model then ''None selected''
                   else if truthy default_model \<and> model = default_model
                     then ''Default model: '' @ model
                   else model)\<rparr>)"

text \<open>\<^verbatim>\<open>update_default_model_display\<close>.\<close>

definition update_default_model_display :: "gui \<Rightarrow> gui" where
  "update_default_model_display s =
     (let default_model = strip (default_model_var s)
      in s\<lparr>default_model_display_var :=
              (if truthy default_model then ''Default: '' @ default_model
               else ''No default model set'')\<rparr>)"

text \<open>
  \<^verbatim>\<open>on_model_select\<close>, after the user has picked row \<open>i\<close> of the list box. An index
  beyond \<^verbatim>\<open>available_models\<close> raises \<^verbatim>\<open>IndexError\<close> in the callback, which changes
  nothing.
\<close>

definition on_model_select :: "gui \<Rightarrow> gui" where
  "on_model_select s =
     (case curselection s of
        None \<Rightarrow> s
      | Some i \<Rightarrow>
          if i < length (available_models s)
          then update_model_status_display (s\<lparr>selected_model := Some (available_models s ! i)\<rparr>)
          else s)"

definition click_model :: "nat \<Rightarrow> gui \<Rightarrow> gui" where
  "click_model i s =
     (if i < length (models_listbox s) then on_model_select (s\<lparr>curselection := Some i\<rparr>) else s)"

subsection \<open>Settings\<close>

text \<open>
  \<^verbatim>\<open>update_connection_fields\<close> decides which entry is on screen: the URL entry for
  \<^verbatim>\<open>ollama\<close> and \<^verbatim>\<open>textgen\<close>, the API key entry for \<^verbatim>\<open>openai\<close> and \<^verbatim>\<open>openrouter\<close>.
\<close>

definition url_entry_shown :: "string \<Rightarrow> bool" where
  "url_entry_shown backend = (backend = ''ollama'' \<or> backend = ''textgen'')"

definition api_key_entry_shown :: "string \<Rightarrow> bool" where
  "api_key_entry_shown backend = (backend \<in> set [''openai'', ''openrouter''])"

text \<open>\<^verbatim>\<open>on_backend_change\<close>.\<close>

definition on_backend_change :: "gui \<Rightarrow> gui" where
  "on_backend_change s =
     (let backend = backend_var s
      in if backend = ''openai'' then s\<lparr>api_key_var := openai_api_key s\<rparr>
         else if backend = ''openrouter'' then s\<lparr>api_key_var := openrouter_api_key s\<rparr>
         else if backend = ''textgen'' then s\<lparr>ollama_url_var := textgen_url s\<rparr>
         else s\<lparr>api_key_var := []\<rparr>)"

text \<open>The user picks an entry of the read-only backend box.\<close>

definition select_backend :: "string \<Rightarrow> gui \<Rightarrow> gui" where
  "select_backend b s = on_backend_change (s\<lparr>backend_var := b\<rparr>)"

text \<open>
  The first lines of \<^verbatim>\<open>save_settings\<close> and \<^verbatim>\<open>auto_save_settings\<close>: the field on screen
  is copied to the stored credential of the current backend.
\<close>

definition store_current_credential :: "gui \<Rightarrow> gui" where
  "store_current_credential s =
     (let current_backend = backend_var s
      in if current_backend = ''openai'' then s\<lparr>openai_api_key := api_key_var s\<rparr>
         else if current_backend = ''openrouter'' then s\<lparr>openrouter_api_key := api_key_var s\<rparr>
         else if current_backend = ''textgen'' then s\<lparr>textgen_url := ollama_url_var s\<rparr>
         else s)"

text \<open>The \<^verbatim>\<open>settings\<close> dictionary that \<^verbatim>\<open>save_settings\<close> builds.\<close>

definition settings_dict :: "gui \<Rightarrow> settings" where
  "settings_dict s =
     \<lparr>st_swarmui_url = Some (swarmui_url_var s),
      st_backend = Some (backend_var s),
      st_ollama_url = Some (ollama_url_var s),
      st_api_key = Some (api_key_var s),
      st_default_model = Some (default_model_var s),
      st_session_id = Some (session_id_var s),
      st_openai_api_key = Some (openai_api_key s),
      st_openrouter_api_key = Some (openrouter_api_key s),
      st_textgen_url = Some (textgen_url s),
      st_temperature = Some (temperature_var s),
      st_max_tokens = Some (max_tokens_var s),
      st_top_p = Some (top_p_var s),
      st_top_k = Some (top_k_var s),
      st_repeat_penalty = Some (repeat_penalty_var s),
      st_seed = Some (seed_var s),
      st_frequency_penalty = Some (frequency_penalty_var s),
      st_presence_penalty = Some (presence_penalty_var s),
      st_min_p = Some (min_p_var s),
      st_top_a = Some (top_a_var s)\<rparr>"

text \<open>
  \<^verbatim>\<open>save_settings\<close>: \<^verbatim>\<open>json.dump\<close> followed by a later \<^verbatim>\<open>json.load\<close> is taken to give
  back the dictionary written.
\<close>

definition save_settings :: "gui \<Rightarrow> world \<Rightarrow> gui \<times> world" where
  "save_settings s w =
     (let s' = store_current_credential s
      in case disk_error w of
           None \<Rightarrow>
             (showinfo ''Success'' ''Settings saved successfully!'' s',
              w\<lparr>settings_file := Some (settings_dict s')\<rparr>)
         | Some e \<Rightarrow> (showerror ''Error'' (''Failed to save settings: '' @ e) s', w))"

text \<open>
  \<^verbatim>\<open>auto_save_settings\<close> writes the nine connection keys only; a failure is printed and
  otherwise ignored.
\<close>

definition auto_settings_dict :: "gui \<Rightarrow> settings" where
  "auto_settings_dict s =
     (settings_dict s)\<lparr>st_temperature := None, st_max_tokens := None, st_top_p := None,
        st_top_k := None, st_repeat_penalty := None, st_seed := None,
        st_frequency_penalty := None, st_presence_penalty := None, st_min_p := None,
        st_top_a := None\<rparr>"

definition auto_save_settings :: "gui \<Rightarrow> world \<Rightarrow> gui \<times> world" where
  "auto_save_settings s w =
     (let s' = store_current_credential s
      in case disk_error w of
           None \<Rightarrow> (s', w\<lparr>settings_file := Some (auto_settings_dict s')\<rparr>)
         | Some e \<Rightarrow> (s', w))"

text \<open>\<^verbatim>\<open>on_api_key_change\<close>, and a key release in the API key entry that leaves text \<open>k\<close>.\<close>

definition on_api_key_change :: "gui \<Rightarrow> world \<Rightarrow> gui \<times> world" where
  "on_api_key_change s w =
     (let current_backend = backend_var s;
          s' = (if current_backend = ''openai'' then s\<lparr>openai_api_key := api_key_var s\<rparr>
                else if current_backend = ''openrouter''
                  then s\<lparr>openrouter_api_key := api_key_var s\<rparr>
                else s)
      in auto_save_settings s' w)"

definition type_api_key :: "string \<Rightarrow> gui \<Rightarrow> world \<Rightarrow> gui \<times> world" where
  "type_api_key k s w =
     (if api_key_entry_shown (backend_var s) then on_api_key_change (s\<lparr>api_key_var := k\<rparr>) w
      else (s, w))"

text \<open>\<^verbatim>\<open>settings.get(key, default)\<close>.\<close>

definition get_or :: "'a option \<Rightarrow> 'a \<Rightarrow> 'a" where
  "get_or v d = (case v of None \<Rightarrow> d | Some x \<Rightarrow> x)"

text \<open>\<^verbatim>\<open>load_settings\<close>.\<close>

definition load_settings :: "gui \<Rightarrow> world \<Rightarrow> gui" where
  "load_settings s w =
     (case settings_file w of
        None \<Rightarrow> s
      | Some st \<Rightarrow>
          (let s1 = s\<lparr>swarmui_url_var := get_or (st_swarmui_url st) ''http://localhost:7801'',
                      backend_var := get_or (st_backend st) ''ollama'',
                      ollama_url_var := get_or (st_ollama_url st) ''http://localhost:11434'',
                      api_key_var := get_or (st_api_key st) [],
                      default_model_var := get_or (st_default_model st) []\<rparr>;
               saved_session_id = get_or (st_session_id st) [];
               s2 = (if truthy saved_session_id then s1\<lparr>session_id_var := saved_session_id\<rparr>
                     else s1);
               s3 = s2\<lparr>openai_api_key := get_or (st_openai_api_key st) [],
                       openrouter_api_key := get_or (st_openrouter_api_key st) [],
                       textgen_url := get_or (st_textgen_url st) ''http://localhost:5000'',
                       temperature_var := get_or (st_temperature st) 0.8,
                       max_tokens_var := get_or (st_max_tokens st) 500,
                       top_p_var := get_or (st_top_p st) 0.7,
                       top_k_var := get_or (st_top_k st) 40,
                       repeat_penalty_var := get_or (st_repeat_penalty st) 1.1,
                       seed_var := get_or (st_seed st) (- 1),
                       frequency_penalty_var := get_or (st_frequency_penalty st) 0,
                       presence_penalty_var := get_or (st_presence_penalty st) 0,
                       min_p_var := get_or (st_min_p st) 0,
                       top_a_var := get_or (st_top_a st) 0\<rparr>
           in update_default_model_display (on_backend_change s3)))"

subsection \<open>Connecting and the model catalog\<close>

text \<open>
  \<^verbatim>\<open>update_session_id_display\<close>: Tk stores \<^verbatim>\<open>str(None)\<close> for an unset session id. With
  \<^verbatim>\<open>self.api\<close> set to \<^verbatim>\<open>None\<close> the call raises.
\<close>

definition update_session_id_display :: "gui \<Rightarrow> exn + gui" where
  "update_session_id_display s =
     (case api s of
        None \<Rightarrow> Inl (Exception (no_attribute ''get_session_id''))
      | Some a \<Rightarrow>
          Inr (s\<lparr>session_id_var := (case session_id a of None \<Rightarrow> ''None'' | Some sid \<Rightarrow> sid)\<rparr>))"

text \<open>
  The three places of \<^verbatim>\<open>load_models\<close> that store a fetched list:
  \<^verbatim>\<open>models.sort(); self.all_models = models.copy(); self.filtered_models = models.copy();
  self.update_models_display()\<close>.
\<close>

definition store_models :: "string list \<Rightarrow> gui \<Rightarrow> gui" where
  "store_models models s =
     update_models_display (s\<lparr>all_models := sort models, filtered_models := sort models\<rparr>)"

text \<open>
  \<^verbatim>\<open>load_models\<close>. Removing all rows of the list box removes its selection. The Ollama
  branch calls \<^verbatim>\<open>connect_ollama(show_all=True)\<close>, with the default address of that
  method. There is no branch for \<^verbatim>\<open>textgen\<close>. Every exception ends in the handler at
  the end of the function.
\<close>

definition load_models_failed :: "string \<Rightarrow> gui \<Rightarrow> gui" where
  "load_models_failed e s = showerror ''Error'' (''Failed to load models: '' @ e) s"

definition load_models :: "gui \<Rightarrow> world \<Rightarrow> gui \<times> world" where
  "load_models s w =
     (let s0 = s\<lparr>models_listbox := [], curselection := None, available_models := []\<rparr>
      in if backend_var s0 = ''ollama'' then
           (case api s0 of
              None \<Rightarrow> (load_models_failed (no_attribute ''connect_ollama'') s0, w)
            | Some a \<Rightarrow>
                (case connect_ollama a ''http://localhost:11434'' True w of
                   (Inl (Exception e), w') \<Rightarrow> (load_models_failed e s0, w')
                 | (Inr result, w') \<Rightarrow>
                     (case j_models result of
                        None \<Rightarrow> (s0, w')
                      | Some models \<Rightarrow>
                          if get_success result then (store_models models s0, w')
                          else (s0, w'))))
         else if backend_var s0 = ''openai'' then
           (let api_key = api_key_var s0
            in if \<not> truthy api_key
               then (showerror ''Error'' ''API key is required for OpenAI'' s0, w)
               else
                 (case api s0 of
                    None \<Rightarrow> (load_models_failed (no_attribute ''get_openai_models'') s0, w)
                  | Some a \<Rightarrow>
                      (case get_openai_models a api_key w of
                         (result, w') \<Rightarrow>
                           if get_success result then
                             (case j_models result of
                                None \<Rightarrow>
                                  (load_models_failed ([CHR 0x27] @ ''models'' @ [CHR 0x27]) s0, w')
                              | Some models \<Rightarrow> (store_models models s0, w'))
                           else
                             (showerror ''Error''
                                (''Failed to fetch OpenAI models: ''
                                   @ get_message result ''Unknown error'') s0, w'))))
         else if backend_var s0 = ''openrouter'' then
           (let api_key = api_key_var s0
            in if \<not> truthy api_key
               then (showerror ''Error'' ''API key is required for OpenRouter'' s0, w)
               else
                 (case api s0 of
                    None \<Rightarrow> (load_models_failed (no_attribute ''get_openrouter_models'') s0, w)
                  | Some a \<Rightarrow>
                      (case get_openrouter_models a api_key w of
                         (result, w') \<Rightarrow>
                           if get_success result then
                             (case j_models result of
                                None \<Rightarrow>
                                  (load_models_failed ([CHR 0x27] @ ''models'' @ [CHR 0x27]) s0, w')
                              | Some models \<Rightarrow> (store_models models s0, w'))
                           else
                             (showerror ''Error''
                                (''Failed to fetch OpenRouter models: ''
                                   @ get_message result ''Unknown error'') s0, w'))))
         else (s0, w))"

text \<open>
  The part of \<^verbatim>\<open>connect_backend\<close> between the session and \<^verbatim>\<open>load_models\<close>: the chain
  over \<^verbatim>\<open>backend_var\<close> either leaves the function after an error box, raises, or yields
  a \<^verbatim>\<open>result\<close>.
\<close>

datatype validation = Returned gui | Raised exn | Result reply

definition validate_backend :: "gui \<Rightarrow> api_client \<Rightarrow> world \<Rightarrow> validation \<times> world" where
  "validate_backend s a w =
     (if backend_var s = ''ollama'' then
        (case connect_ollama a (ollama_url_var s) True w of
           (Inl e, w') \<Rightarrow> (Raised e, w')
         | (Inr result, w') \<Rightarrow> (Result result, w'))
      else if backend_var s = ''textgen'' then
        (let textgen_url = ollama_url_var s
         in if \<not> truthy textgen_url
            then (Returned (showerror ''Error'' ''TextGen URL is required'' s), w)
            else (case connect_textgen a textgen_url w of
                    (Inl e, w') \<Rightarrow> (Raised e, w')
                  | (Inr result, w') \<Rightarrow> (Result result, w')))
      else if backend_var s \<in> set [''openai'', ''openrouter''] then
        (let api_key = api_key_var s
         in if \<not> truthy api_key
            then (Returned (showerror ''Error'' ''API key is required for external APIs'' s), w)
            else (Result (empty_reply\<lparr>j_success := Some True,
                                       j_message := Some ''Connected to external API''\<rparr>), w))
      else (Result (failure ''Unknown backend type''), w))"

text \<open>
  The selection after \<^verbatim>\<open>load_models\<close>: \<^verbatim>\<open>if self.available_models: ...\<close> with the stored
  default read through \<^verbatim>\<open>strip()\<close>.
\<close>

definition select_default_model :: "gui \<Rightarrow> gui" where
  "select_default_model s =
     (case available_models s of
        [] \<Rightarrow> s
      | first_model # rest \<Rightarrow>
          (let current_default = strip (default_model_var s)
           in if truthy current_default \<and> current_default \<in> set (available_models s)
              then update_model_status_display (s\<lparr>selected_model := Some current_default\<rparr>)
              else update_model_status_display (s\<lparr>selected_model := Some first_model\<rparr>)))"

text \<open>\<^verbatim>\<open>connect_backend\<close>.\<close>

definition connect_backend :: "gui \<Rightarrow> world \<Rightarrow> gui \<times> world" where
  "connect_backend s w =
     (case get_swarmui_session (OllamaVisionAPI (swarmui_url_var s)) w of
        ((session_result, a), w1) \<Rightarrow>
          (let s1 = s\<lparr>api := Some a\<rparr>
           in if \<not> get_success session_result
              then (showerror ''Error''
                      (''Failed to get SwarmUI session: '' @ get_message session_result [])
                      s1, w1)
              else
                (case update_session_id_display s1 of
                   Inl (Exception e) \<Rightarrow> (showerror ''Error'' (''Connection failed: '' @ e) s1, w1)
                 | Inr s2 \<Rightarrow>
                     (case validate_backend s2 a w1 of
                        (Returned s3, w2) \<Rightarrow> (s3, w2)
                      | (Raised (Exception e), w2) \<Rightarrow>
                          (showerror ''Error'' (''Connection failed: '' @ e) s2, w2)
                      | (Result result, w2) \<Rightarrow>
                          if get_success result then
                            (case load_models s2 w2 of
                               (s3, w3) \<Rightarrow>
                                 ((select_default_model (update_default_model_display s3))
                                    \<lparr>is_connected := True\<rparr>, w3))
                          else
                            (showerror ''Error''
                               (''Connection failed: '' @ get_message result ''Unknown error'')
                               s2, w2)))))"

text \<open>\<^verbatim>\<open>disconnect_backend\<close> and \<^verbatim>\<open>toggle_connection\<close>.\<close>

definition disconnect_backend :: "gui \<Rightarrow> gui" where
  "disconnect_backend s =
     update_default_model_display
       (update_models_display
          (update_model_status_display
             (s\<lparr>is_connected := False, selected_model := None, available_models := [],
                all_models := [], filtered_models := [], api := None\<rparr>)))"

definition toggle_connection :: "gui \<Rightarrow> world \<Rightarrow> gui \<times> world" where
  "toggle_connection s w =
     (if is_connected s then (disconnect_backend s, w) else connect_backend s w)"

text \<open>\<^verbatim>\<open>set_as_default_model\<close>.\<close>

definition set_as_default_model :: "gui \<Rightarrow> world \<Rightarrow> gui \<times> world" where
  "set_as_default_model s w =
     (case selected_model s of
        None \<Rightarrow> (showwarning ''No Model Selected'' ''Please select a model first'' s, w)
      | Some model \<Rightarrow>
          if \<not> truthy model
          then (showwarning ''No Model Selected'' ''Please select a model first'' s, w)
          else
            (case auto_save_settings
                    (update_model_status_display
                       (update_default_model_display (s\<lparr>default_model_var := model\<rparr>))) w of
               (s', w') \<Rightarrow>
                 (showinfo ''Default Model Set''
                    ([CHR 0x27] @ model @ [CHR 0x27]
                       @ '' has been set as your default model'') s', w')))"

subsection \<open>Generation requests\<close>

text \<open>
  The three built-in system prompts are long literals that the program only passes on;
  the model takes their text as a parameter.
\<close>

record prompts =
  wan_i2v_system_prompt :: string
  qwen_system_prompt :: string
  wan_system_prompt :: string

text \<open>\<^verbatim>\<open>get_enhancement_system_prompt\<close>.\<close>

definition get_enhancement_system_prompt :: "prompts \<Rightarrow> string \<Rightarrow> string" where
  "get_enhancement_system_prompt P enhancement_type =
     (if enhancement_type = ''qwen'' then qwen_system_prompt P
      else if enhancement_type = ''wan'' then wan_system_prompt P
      else ''Enhance the following text:'')"

text \<open>
  The argument \<^verbatim>\<open>api_key=self.api_key_var.get() if self.backend_var.get() in ["openai",
  "openrouter"] else None\<close> of the three calls.
\<close>

definition api_key_argument :: "gui \<Rightarrow> string option" where
  "api_key_argument s =
     (if backend_var s \<in> set [''openai'', ''openrouter''] then Some (api_key_var s) else None)"

text \<open>\<^verbatim>\<open>display_image_analysis_result\<close>, \<^verbatim>\<open>display_text_result\<close>, \<^verbatim>\<open>display_batch_result\<close>.\<close>

definition display_image_analysis_result :: "reply \<Rightarrow> gui \<Rightarrow> gui" where
  "display_image_analysis_result result s =
     s\<lparr>image_analysis_text :=
         (if get_success result then
            (let response = get_or (j_response result) []
             in if truthy response then response else ''No analysis response received.'')
          else ''Error: '' @ get_message result ''Unknown error occurred'')\<rparr>"

definition display_text_result :: "reply \<Rightarrow> gui \<Rightarrow> gui" where
  "display_text_result result s =
     s\<lparr>text_results_text :=
         (if get_success result then
            (case j_response result of
               Some response \<Rightarrow> response
             | None \<Rightarrow> ''No enhanced text received.'')
          else ''Error: '' @ get_message result ''Unknown error occurred'')\<rparr>"

definition display_batch_result :: "reply \<Rightarrow> gui \<Rightarrow> gui" where
  "display_batch_result result s =
     (if \<not> get_success result
      then showerror ''Batch Processing Error''
             (''Error: '' @ get_or (j_error result) ''Unknown error occurred'') s
      else s)"

text \<open>
  \<^verbatim>\<open>_analyze_image_thread\<close>, which reads \<^verbatim>\<open>self.current_image_data\<close> again: the
  caller has found it truthy and hands it over as \<open>image_data\<close>.
\<close>

definition analyze_image_thread :: "prompts \<Rightarrow> string \<Rightarrow> string \<Rightarrow> gui \<Rightarrow> world \<Rightarrow> gui \<times> world" where
  "analyze_image_thread P image_data model s w =
     (let system_prompt = (if wan_i2v_var s then Some (wan_i2v_system_prompt P) else None)
      in case api s of
           None \<Rightarrow>
             (showerror ''Error'' (''Analysis failed: '' @ no_attribute ''analyze_image'') s, w)
         | Some a \<Rightarrow>
             (case analyze_image a image_data model (backend_var s) (prompt_var s)
                     (temperature_var s) (max_tokens_var s) (ollama_url_var s)
                     (api_key_argument s) default_site_name system_prompt w of
                (Inl (Exception e), w') \<Rightarrow>
                  (showerror ''Error'' (''Analysis failed: '' @ e) s, w')
              | (Inr result, w') \<Rightarrow> (display_image_analysis_result result s, w')))"

text \<open>\<^verbatim>\<open>analyze_single_image\<close>.\<close>

definition analyze_single_image :: "prompts \<Rightarrow> gui \<Rightarrow> world \<Rightarrow> gui \<times> world" where
  "analyze_single_image P s w =
     (case current_image_data s of
        None \<Rightarrow> (showerror ''Error'' ''Please select an image first'' s, w)
      | Some image_data \<Rightarrow>
          if \<not> truthy image_data
          then (showerror ''Error'' ''Please select an image first'' s, w)
          else if available_models s = []
          then (showerror ''Error'' ''Please connect to a backend first'' s, w)
          else
            (case get_selected_model s of
               None \<Rightarrow>
                 (showerror ''Error'' ''Please select a model from the Connection tab'' s, w)
             | Some model \<Rightarrow>
                 if \<not> truthy model
                 then (showerror ''Error'' ''Please select a model from the Connection tab'' s, w)
                 else analyze_image_thread P image_data model s w))"

text \<open>
  \<^verbatim>\<open>_process_batch_thread\<close>: the folder is listed first, and without an image file in
  it the thread ends before the request.
\<close>

definition image_extensions :: "string list" where
  "image_extensions = [''.jpg'', ''.jpeg'', ''.png'', ''.gif'', ''.bmp'', ''.tiff'', ''.webp'']"

definition is_image_file :: "string \<Rightarrow> bool" where
  "is_image_file file = list_ex (\<lambda>ext. endswith (lower file) ext) image_extensions"

definition process_batch_thread :: "string \<Rightarrow> gui \<Rightarrow> world \<Rightarrow> gui \<times> world" where
  "process_batch_thread model s w =
     (let folder_path = folder_path_var s
      in case listdir w folder_path of
           Inl e \<Rightarrow> (showerror ''Error'' (''Batch processing failed: '' @ e) s, w)
         | Inr files \<Rightarrow>
             if filter is_image_file files = [] then (s, w)
             else
               (case api s of
                  None \<Rightarrow>
                    (showerror ''Error''
                       (''Batch processing failed: '' @ no_attribute ''batch_caption_images'')
                       s, w)
                | Some a \<Rightarrow>
                    (case batch_caption_images a folder_path model (backend_var s)
                            (caption_style_var s) (trigger_word_var s) (temperature_var s)
                            (max_tokens_var s) (ollama_url_var s) (api_key_argument s)
                            default_site_name w of
                       (Inl (Exception e), w') \<Rightarrow>
                         (showerror ''Error'' (''Batch processing failed: '' @ e) s, w')
                     | (Inr result, w') \<Rightarrow> (display_batch_result result s, w'))))"

text \<open>\<^verbatim>\<open>process_batch\<close>.\<close>

definition process_batch :: "gui \<Rightarrow> world \<Rightarrow> gui \<times> world" where
  "process_batch s w =
     (if \<not> truthy (folder_path_var s)
      then (showerror ''Error'' ''Please select a folder first'' s, w)
      else if available_models s = []
      then (showerror ''Error'' ''Please connect to a backend first'' s, w)
      else
        (case get_selected_model s of
           None \<Rightarrow> (showerror ''Error'' ''Please select a model from the Connection tab'' s, w)
         | Some model \<Rightarrow>
             if \<not> truthy model
             then (showerror ''Error'' ''Please select a model from the Connection tab'' s, w)
             else process_batch_thread model s w))"

text \<open>\<^verbatim>\<open>_enhance_text_thread\<close> and \<^verbatim>\<open>enhance_text\<close>.\<close>

definition enhance_text_thread :: "prompts \<Rightarrow> string \<Rightarrow> string \<Rightarrow> gui \<Rightarrow> world \<Rightarrow> gui \<times> world" where
  "enhance_text_thread P model text s w =
     (let system_prompt = get_enhancement_system_prompt P (enhancement_type_var s)
      in case api s of
           None \<Rightarrow>
             (showerror ''Error''
                (''Text enhancement failed: '' @ no_attribute ''enhance_text_prompt'') s, w)
         | Some a \<Rightarrow>
             (case enhance_text_prompt a model (backend_var s) text (temperature_var s)
                     (max_tokens_var s) (ollama_url_var s) (api_key_argument s)
                     default_site_name (Some system_prompt) w of
                (Inl (Exception e), w') \<Rightarrow>
                  (showerror ''Error'' (''Text enhancement failed: '' @ e) s, w')
              | (Inr result, w') \<Rightarrow> (display_text_result result s, w')))"

definition enhance_text :: "prompts \<Rightarrow> gui \<Rightarrow> world \<Rightarrow> gui \<times> world" where
  "enhance_text P s w =
     (if available_models s = []
      then (showerror ''Error'' ''Please connect to a backend first'' s, w)
      else
        (case get_selected_model s of
           None \<Rightarrow> (showerror ''Error'' ''Please select a model from the Connection tab'' s, w)
         | Some model \<Rightarrow>
             if \<not> truthy model
             then (showerror ''Error'' ''Please select a model from the Connection tab'' s, w)
             else
               (let text = strip (text_input s)
                in if \<not> truthy text
                   then (showerror ''Error'' ''Please enter text to enhance'' s, w)
                   else enhance_text_thread P model text s w)))"

section \<open>Notions used to state the properties\<close>

text \<open>
  The body of the request sent last. For concrete runs: a remote side that answers the
  requests of a run in turn from a list and refuses the connection afterwards, a gateway
  answer that lists models, and the answer that issues a session.
\<close>

definition body_sent :: "world \<Rightarrow> pydict option" where
  "body_sent w = (case rev (sent w) of [] \<Rightarrow> None | q # qs \<Rightarrow> req_json q)"

definition scripted :: "http_result list \<Rightarrow> world" where
  "scripted rs =
     \<lparr>net = (\<lambda>n q. if n < length rs then rs ! n else RequestException ''Connection refused''),
      sent = [], settings_file = None, disk_error = None, listdir = (\<lambda>p. Inr [])\<rparr>"

definition catalog_reply :: "string list \<Rightarrow> reply" where
  "catalog_reply models = empty_reply\<lparr>j_success := Some True, j_models := Some models\<rparr>"

definition session_reply :: "string \<Rightarrow> reply" where
  "session_reply sid = empty_reply\<lparr>j_session_id := Some sid\<rparr>"

text \<open>
  The field table of the generation requests as the code realises it: the system prompt
  field for a non-empty override, then the fields of the backend.
\<close>

definition system_prompt_field :: "string option \<Rightarrow> pydict" where
  "system_prompt_field system_prompt =
     (case system_prompt of
        None \<Rightarrow> []
      | Some p \<Rightarrow> if p = [] then [] else [(''systemPrompt'', JStr p)])"

definition backend_fields :: "string \<Rightarrow> string \<Rightarrow> string option \<Rightarrow> string \<Rightarrow> pydict" where
  "backend_fields backend_type ollama_url api_key site_name =
     (if backend_type = ''ollama'' then [(''ollamaUrl'', JStr ollama_url)]
      else if backend_type = ''openai'' then [(''apiKey'', jstr_opt api_key)]
      else if backend_type = ''openrouter''
        then [(''apiKey'', jstr_opt api_key), (''siteName'', JStr site_name)]
      else [])"

text \<open>
  The connection state a caller observes, and the first two steps of \<open>connect_backend\<close>:
  the session bootstrap, and the validation of the backend with the session in place.
\<close>

definition connection_view ::
  "gui \<Rightarrow> bool \<times> string list \<times> string list \<times> string list \<times> string option" where
  "connection_view s =
     (is_connected s, all_models s, filtered_models s, available_models s, selected_model s)"

definition session_step :: "gui \<Rightarrow> world \<Rightarrow> (reply \<times> api_client) \<times> world" where
  "session_step s w = get_swarmui_session (OllamaVisionAPI (swarmui_url_var s)) w"

definition with_session :: "api_client \<Rightarrow> gui \<Rightarrow> gui" where
  "with_session a s =
     s\<lparr>api := Some a,
       session_id_var := (case session_id a of None \<Rightarrow> ''None'' | Some sid \<Rightarrow> sid)\<rparr>"

definition bootstrap_ok :: "gui \<Rightarrow> world \<Rightarrow> bool" where
  "bootstrap_ok s w = get_success (fst (fst (session_step s w)))"

definition validation_ok :: "gui \<Rightarrow> world \<Rightarrow> bool" where
  "validation_ok s w =
     (case session_step s w of
        ((r, a), w1) \<Rightarrow>
          (case fst (validate_backend (with_session a s) a w1) of
             Result result \<Rightarrow> get_success result
           | Returned s' \<Rightarrow> False
           | Raised e \<Rightarrow> False))"

text \<open>The state at the start of \<open>load_models\<close>, after its first two statements.\<close>

definition cleared :: "gui \<Rightarrow> gui" where
  "cleared s = s\<lparr>models_listbox := [], curselection := None, available_models := []\<rparr>"

text \<open>
  The API key entry is on screen for \<^verbatim>\<open>openai\<close> and \<^verbatim>\<open>openrouter\<close> only, and
  \<open>on_backend_change\<close>, which follows every write to \<^verbatim>\<open>backend_var\<close>, empties
  \<^verbatim>\<open>api_key_var\<close> for every backend but \<^verbatim>\<open>openai\<close>, \<^verbatim>\<open>openrouter\<close> and \<^verbatim>\<open>textgen\<close>. So
  the states the handlers produce satisfy the following.
\<close>

definition key_field_consistent :: "gui \<Rightarrow> bool" where
  "key_field_consistent s =
     (backend_var s \<in> set [''openai'', ''openrouter'', ''textgen''] \<or> api_key_var s = [])"

text \<open>A user who has picked OpenAI and typed a key, for concrete runs.\<close>

definition openai_user :: gui where
  "openai_user = fst (type_api_key ''sk-test'' (select_backend ''openai'' created_widgets)
                        (scripted []))"

text \<open>
  Concrete runs. A user whose default model was typed with a blank after it; a remote side
  that issues a session and then fails; one that issues a session and lists two models on
  each of the two listing calls of an Ollama connect. Then a run in which the OpenAI user
  connects, empties the key field, picks an image and asks for its analysis.
\<close>

definition padded_default_user :: gui where
  "padded_default_user = created_widgets\<lparr>default_model_var := ''llava ''\<rparr>"

definition listing_fails :: world where
  "listing_fails = scripted [Json (session_reply ''S1''), RequestException ''Connection refused'']"

definition two_models :: world where
  "two_models = scripted [Json (session_reply ''S1''),
                          Json (catalog_reply [''llava'', ''bakllava'']),
                          Json (catalog_reply [''llava'', ''bakllava''])]"

definition example_prompts :: prompts where
  "example_prompts = \<lparr>wan_i2v_system_prompt = ''You are a movie director.'',
     qwen_system_prompt = ''You are an expert prompt enhancement specialist.'',
     wan_system_prompt = ''You are a motion prompt enhancement assistant.''\<rparr>"

definition openai_answers :: world where
  "openai_answers = scripted [Json (session_reply ''S1''),
                              Json (empty_reply\<lparr>j_data := Some [Some ''gpt-4o'']\<rparr>),
                              Json (empty_reply\<lparr>j_success := Some True,
                                                  j_response := Some ''A cat.''\<rparr>)]"

definition key_cleared :: "gui \<times> world" where
  "key_cleared =
     (case connect_backend openai_user openai_answers of
        (s1, w1) \<Rightarrow>
          (case type_api_key [] s1 w1 of
             (s2, w2) \<Rightarrow> (s2\<lparr>current_image_data := Some ''data:image/png;base64,AAAA''\<rparr>, w2)))"

definition analysis_without_key :: "gui \<times> world" where
  "analysis_without_key = analyze_single_image example_prompts (fst key_cleared) (snd key_cleared)"

section \<open>The gateway client: failures, bodies and listings\<close>

lemma http_eq: "http q w = (net w (length (sent w)) q, w\<lparr>sent := sent w @ [q]\<rparr>)"
  by (simp add: http_def)

lemma truthy_eq: "truthy = (\<lambda>i. i \<noteq> [])"
  by (simp add: truthy_def fun_eq_iff)

lemma make_request_fails:
  assumes "\<And>q. net w (length (sent w)) q = RequestException e"
  shows "fst (make_request a endpoint data w) = Inl (Exception (''API request failed: '' @ e))"
  using assms by (simp add: make_request_def http_eq)

lemma sent_make_request:
  "sent (snd (make_request a endpoint data w)) =
     sent w @ [\<lparr>req_method = POST, req_url = base_url a @ ''/API/'' @ endpoint,
                req_headers = headers a, req_json = Some (data_with_session a data),
                req_timeout = 120\<rparr>]"
  by (simp add: make_request_def http_eq split: http_result.splits)

lemma body_sent_snoc: "sent w = qs @ [q] \<Longrightarrow> body_sent w = req_json q"
  by (simp add: body_sent_def)

lemma make_request_fails_eq:
  assumes "\<And>q. net w (length (sent w)) q = RequestException e"
  shows "make_request a endpoint data w =
           (Inl (Exception (''API request failed: '' @ e)),
            w\<lparr>sent := sent w @ [\<lparr>req_method = POST,
              req_url = base_url a @ ''/API/'' @ endpoint, req_headers = headers a,
              req_json = Some (data_with_session a data), req_timeout = 120\<rparr>]\<rparr>)"
  using assms by (simp add: make_request_def http_eq)

lemma analyze_image_thread_fails:
  assumes "\<And>q. net w (length (sent w)) q = RequestException e" and "api s = Some a"
  shows "fst (analyze_image_thread P img m s w) =
           showerror ''Error'' (''Analysis failed: API request failed: '' @ e) s"
  unfolding analyze_image_thread_def analyze_image_def Let_def
  by (simp add: make_request_fails_eq [OF assms(1)] assms(2))

lemma enhance_text_thread_fails:
  assumes "\<And>q. net w (length (sent w)) q = RequestException e" and "api s = Some a"
  shows "fst (enhance_text_thread P m text s w) =
           showerror ''Error'' (''Text enhancement failed: API request failed: '' @ e) s"
  unfolding enhance_text_thread_def enhance_text_prompt_def Let_def
  by (simp add: make_request_fails_eq [OF assms(1)] assms(2))

lemma process_batch_thread_fails:
  assumes "\<And>q. net w (length (sent w)) q = RequestException e" and "api s = Some a"
    and "listdir w (folder_path_var s) = Inr files" and "filter is_image_file files \<noteq> []"
  shows "fst (process_batch_thread m s w) =
           showerror ''Error'' (''Batch processing failed: API request failed: '' @ e) s"
  unfolding process_batch_thread_def batch_caption_images_def Let_def
  by (simp add: make_request_fails_eq [OF assms(1)] assms(2-4))

lemma load_models_ollama_fails:
  assumes "\<And>q. net w (length (sent w)) q = RequestException e" and "api s = Some a"
    and "backend_var s = ''ollama''"
  shows "fst (load_models s w) =
           showerror ''Error'' (''Failed to load models: API request failed: '' @ e) (cleared s)"
  unfolding load_models_def connect_ollama_def Let_def
  by (simp add: make_request_fails_eq [OF assms(1)] assms(2,3) load_models_failed_def
        cleared_def)

lemma provider_models_fails:
  assumes "\<And>q. net w (length (sent w)) q = RequestException e"
  shows "provider_models url label key w =
           (failure (''Failed to fetch '' @ label @ '' models: '' @ e),
            w\<lparr>sent := sent w @ [\<lparr>req_method = GET, req_url = url,
                 req_headers = [(''Authorization'', ''Bearer '' @ key),
                                (''Content-Type'', ''application/json'')],
                 req_json = None, req_timeout = 60\<rparr>]\<rparr>)"
  using assms by (simp add: provider_models_def http_eq)

lemma load_models_provider_fails:
  assumes "\<And>q. net w (length (sent w)) q = RequestException e" and "api s = Some a"
    and "api_key_var s \<noteq> []"
  shows "backend_var s = ''openai'' \<Longrightarrow>
           fst (load_models s w) =
             showerror ''Error''
               (''Failed to fetch OpenAI models: Failed to fetch OpenAI models: '' @ e)
               (cleared s)"
    and "backend_var s = ''openrouter'' \<Longrightarrow>
           fst (load_models s w) =
             showerror ''Error''
               (''Failed to fetch OpenRouter models: Failed to fetch OpenRouter models: '' @ e)
               (cleared s)"
  using assms(2,3)
  by (simp_all add: load_models_def get_openai_models_def get_openrouter_models_def
        provider_models_fails [OF assms(1)] failure_def empty_reply_def get_success_def
        get_message_def truthy_def cleared_def Let_def)

lemma validate_backend_fails:
  assumes "\<And>q. net w (length (sent w)) q = RequestException e"
    and "backend_var s = ''ollama'' \<or> (backend_var s = ''textgen'' \<and> ollama_url_var s \<noteq> [])"
  shows "validate_backend s a w =
           (Raised (Exception (''API request failed: '' @ e)), snd (validate_backend s a w))"
  using assms(2)
  by (auto simp: validate_backend_def connect_ollama_def connect_textgen_def truthy_def
        Let_def make_request_fails_eq [OF assms(1)])

lemma connect_backend_session_fails:
  assumes "\<And>q. net w (length (sent w)) q = RequestException e"
  shows "fst (connect_backend s w) =
           showerror ''Error''
             (''Failed to get SwarmUI session: Failed to get SwarmUI session: '' @ e)
             (s\<lparr>api := Some (OllamaVisionAPI (swarmui_url_var s))\<rparr>)"
  using assms
  by (simp add: connect_backend_def get_swarmui_session_def http_eq failure_def
        empty_reply_def get_success_def get_message_def Let_def)

lemma connect_backend_connect_call_fails:
  assumes ok: "\<And>q. net w (length (sent w)) q = Json d" and sid: "j_session_id d = Some sid"
    and fail: "\<And>q. net w (Suc (length (sent w))) q = RequestException e"
    and b: "backend_var s = ''ollama'' \<or> (backend_var s = ''textgen'' \<and> ollama_url_var s \<noteq> [])"
  shows "fst (connect_backend s w) =
           showerror ''Error'' (''Connection failed: API request failed: '' @ e)
             (with_session ((OllamaVisionAPI (swarmui_url_var s))\<lparr>session_id := Some sid\<rparr>) s)"
proof -
  let ?fresh = "OllamaVisionAPI (swarmui_url_var s)"
  let ?client = "?fresh\<lparr>session_id := Some sid\<rparr>"
  let ?q = "\<lparr>req_method = POST, req_url = base_url ?fresh @ ''/API/GetNewSession'',
             req_headers = headers ?fresh, req_json = Some [], req_timeout = 60\<rparr>"
  let ?w1 = "w\<lparr>sent := sent w @ [?q]\<rparr>"
  have ses: "get_swarmui_session ?fresh w =
               ((empty_reply\<lparr>j_success := Some True, j_session_id := Some sid\<rparr>, ?client), ?w1)"
    using ok sid by (simp add: get_swarmui_session_def http_eq)
  have f1: "\<And>q. net ?w1 (length (sent ?w1)) q = RequestException e"
    using fail by simp
  have bs: "backend_var (with_session ?client s) = ''ollama''
            \<or> (backend_var (with_session ?client s) = ''textgen''
                \<and> ollama_url_var (with_session ?client s) \<noteq> [])"
    using b by (simp add: with_session_def)
  have disp: "update_session_id_display (s\<lparr>api := Some ?client\<rparr>) = Inr (with_session ?client s)"
    by (simp add: update_session_id_display_def with_session_def)
  have succ: "get_success (empty_reply\<lparr>j_success := Some True, j_session_id := Some sid\<rparr>)"
    by (simp add: get_success_def)
  define w2 where "w2 = snd (validate_backend (with_session ?client s) ?client ?w1)"
  have vb: "validate_backend (with_session ?client s) ?client ?w1 =
              (Raised (Exception (''API request failed: '' @ e)), w2)"
    unfolding w2_def by (rule validate_backend_fails [OF f1 bs])
  show ?thesis
    by (simp add: connect_backend_def ses succ disp vb Let_def)
qed

text \<open>
  Claim C1, as the code has it. When the transport fails with cause \<open>e\<close>, the session
  bootstrap and the two provider listings return the value
  \<^verbatim>\<open>{"success": False, "message": ...}\<close> whose message ends in the cause, and their
  callers (\<open>connect_backend\<close>, \<open>load_models\<close>) show that message in an error box. The
  five gateway calls that go through \<open>make_request\<close> do not return a value: they raise
  \<^verbatim>\<open>Exception("API request failed: " + e)\<close> out of the client. Every handler that makes
  such a call catches the exception and shows it in an error box: \<open>load_models\<close> (the
  Ollama listing), the validation step of \<open>connect_backend\<close> (the Ollama and the TextGen
  connect call, here failing after the session has been issued), and the analysis, batch
  and enhancement threads.
\<close>

theorem transport_failure_outcomes:
  assumes "\<And>q. net w (length (sent w)) q = RequestException e"
  shows "fst (get_swarmui_session a w) = (failure (''Failed to get SwarmUI session: '' @ e), a)
       \<and> fst (get_openai_models a key w) = failure (''Failed to fetch OpenAI models: '' @ e)
       \<and> fst (get_openrouter_models a key w)
            = failure (''Failed to fetch OpenRouter models: '' @ e)
       \<and> fst (connect_ollama a url show_all w) = Inl (Exception (''API request failed: '' @ e))
       \<and> fst (connect_textgen a url w) = Inl (Exception (''API request failed: '' @ e))
       \<and> fst (analyze_image a img m b p t n url k site sp w)
            = Inl (Exception (''API request failed: '' @ e))
       \<and> fst (batch_caption_images a folder m b style trigger t n url k site w)
            = Inl (Exception (''API request failed: '' @ e))
       \<and> fst (enhance_text_prompt a m b p t n url k site sp w)
            = Inl (Exception (''API request failed: '' @ e))
       \<and> (api s = Some a \<longrightarrow>
            fst (analyze_image_thread P img m s w)
              = showerror ''Error'' (''Analysis failed: API request failed: '' @ e) s)
       \<and> (api s = Some a \<longrightarrow>
            fst (enhance_text_thread P m p s w)
              = showerror ''Error'' (''Text enhancement failed: API request failed: '' @ e) s)
       \<and> (api s = Some a \<and> listdir w (folder_path_var s) = Inr files
            \<and> filter is_image_file files \<noteq> [] \<longrightarrow>
            fst (process_batch_thread m s w)
              = showerror ''Error'' (''Batch processing failed: API request failed: '' @ e) s)
       \<and> (api s = Some a \<and> backend_var s = ''ollama'' \<longrightarrow>
            fst (load_models s w)
              = showerror ''Error'' (''Failed to load models: API request failed: '' @ e)
                  (cleared s))
       \<and> (api s = Some a \<and> api_key_var s \<noteq> [] \<and> backend_var s = ''openai'' \<longrightarrow>
            fst (load_models s w)
              = showerror ''Error''
                  (''Failed to fetch OpenAI models: Failed to fetch OpenAI models: '' @ e)
                  (cleared s))
       \<and> (api s = Some a \<and> api_key_var s \<noteq> [] \<and> backend_var s = ''openrouter'' \<longrightarrow>
            fst (load_models s w)
              = showerror ''Error''
                  (''Failed to fetch OpenRouter models: Failed to fetch OpenRouter models: '' @ e)
                  (cleared s))
       \<and> (backend_var s = ''ollama''
            \<or> (backend_var s = ''textgen'' \<and> ollama_url_var s \<noteq> []) \<longrightarrow>
            fst (validate_backend s a w) = Raised (Exception (''API request failed: '' @ e)))
       \<and> fst (connect_backend s w)
            = showerror ''Error''
                (''Failed to get SwarmUI session: Failed to get SwarmUI session: '' @ e)
                (s\<lparr>api := Some (OllamaVisionAPI (swarmui_url_var s))\<rparr>)
       \<and> ((\<forall>q. net w' (length (sent w')) q = Json d) \<and> j_session_id d = Some sid
            \<and> (\<forall>q. net w' (Suc (length (sent w'))) q = RequestException e)
            \<and> (backend_var s = ''ollama''
                \<or> (backend_var s = ''textgen'' \<and> ollama_url_var s \<noteq> [])) \<longrightarrow>
            fst (connect_backend s w')
              = showerror ''Error'' (''Connection failed: API request failed: '' @ e)
                  (with_session
                     ((OllamaVisionAPI (swarmui_url_var s))\<lparr>session_id := Some sid\<rparr>) s))"
proof -
  have api_calls:
    "fst (get_swarmui_session a w) = (failure (''Failed to get SwarmUI session: '' @ e), a)
       \<and> fst (get_openai_models a key w) = failure (''Failed to fetch OpenAI models: '' @ e)
       \<and> fst (get_openrouter_models a key w)
            = failure (''Failed to fetch OpenRouter models: '' @ e)
       \<and> fst (connect_ollama a url show_all w) = Inl (Exception (''API request failed: '' @ e))
       \<and> fst (connect_textgen a url w) = Inl (Exception (''API request failed: '' @ e))
       \<and> fst (analyze_image a img m b p t n url k site sp w)
            = Inl (Exception (''API request failed: '' @ e))
       \<and> fst (batch_caption_images a folder m b style trigger t n url k site w)
            = Inl (Exception (''API request failed: '' @ e))
       \<and> fst (enhance_text_prompt a m b p t n url k site sp w)
            = Inl (Exception (''API request failed: '' @ e))"
    using assms
    by (simp add: get_swarmui_session_def get_openai_models_def get_openrouter_models_def
          provider_models_def connect_ollama_def connect_textgen_def analyze_image_def
          batch_caption_images_def enhance_text_prompt_def make_request_fails http_eq)
  have threads:
    "(api s = Some a \<longrightarrow>
        fst (analyze_image_thread P img m s w)
          = showerror ''Error'' (''Analysis failed: API request failed: '' @ e) s)
     \<and> (api s = Some a \<longrightarrow>
        fst (enhance_text_thread P m p s w)
          = showerror ''Error'' (''Text enhancement failed: API request failed: '' @ e) s)
     \<and> (api s = Some a \<and> listdir w (folder_path_var s) = Inr files
          \<and> filter is_image_file files \<noteq> [] \<longrightarrow>
        fst (process_batch_thread m s w)
          = showerror ''Error'' (''Batch processing failed: API request failed: '' @ e) s)"
    using analyze_image_thread_fails [OF assms] enhance_text_thread_fails [OF assms]
      process_batch_thread_fails [OF assms]
    by blast
  have listing:
    "(api s = Some a \<and> backend_var s = ''ollama'' \<longrightarrow>
        fst (load_models s w)
          = showerror ''Error'' (''Failed to load models: API request failed: '' @ e)
              (cleared s))
     \<and> (api s = Some a \<and> api_key_var s \<noteq> [] \<and> backend_var s = ''openai'' \<longrightarrow>
        fst (load_models s w)
          = showerror ''Error''
              (''Failed to fetch OpenAI models: Failed to fetch OpenAI models: '' @ e)
              (cleared s))
     \<and> (api s = Some a \<and> api_key_var s \<noteq> [] \<and> backend_var s = ''openrouter'' \<longrightarrow>
        fst (load_models s w)
          = showerror ''Error''
              (''Failed to fetch OpenRouter models: Failed to fetch OpenRouter models: '' @ e)
              (cleared s))"
    using load_models_ollama_fails [OF assms] load_models_provider_fails [OF assms]
    by blast
  have validation:
    "backend_var s = ''ollama''
       \<or> (backend_var s = ''textgen'' \<and> ollama_url_var s \<noteq> []) \<longrightarrow>
     fst (validate_backend s a w) = Raised (Exception (''API request failed: '' @ e))"
    using validate_backend_fails [OF assms, of s a] by (metis fst_conv)
  have connect:
    "(\<forall>q. net w' (length (sent w')) q = Json d) \<and> j_session_id d = Some sid
       \<and> (\<forall>q. net w' (Suc (length (sent w'))) q = RequestException e)
       \<and> (backend_var s = ''ollama''
           \<or> (backend_var s = ''textgen'' \<and> ollama_url_var s \<noteq> [])) \<longrightarrow>
     fst (connect_backend s w')
       = showerror ''Error'' (''Connection failed: API request failed: '' @ e)
           (with_session
              ((OllamaVisionAPI (swarmui_url_var s))\<lparr>session_id := Some sid\<rparr>) s)"
    using connect_backend_connect_call_fails [of w' d sid e s] by blast
  from api_calls threads listing validation connect_backend_session_fails [OF assms, of s]
    connect
  show ?thesis by (intro conjI) (blast+)?
qed

theorem transport_failure_outcomes_witness:
  "fst (get_swarmui_session (OllamaVisionAPI ''http://localhost:7801'') (scripted []))
     = (failure ''Failed to get SwarmUI session: Connection refused'',
        OllamaVisionAPI ''http://localhost:7801'')
   \<and> fst (connect_textgen (OllamaVisionAPI ''http://localhost:7801'') ''http://localhost:5000''
            (scripted []))
     = Inl (Exception ''API request failed: Connection refused'')
   \<and> dialogs (fst (load_models created_widgets (scripted [])))
     = [ShowError ''Error'' ''Failed to load models: API request failed: Connection refused'']
   \<and> dialogs (fst (connect_backend created_widgets (scripted [Json (session_reply ''S1'')])))
     = [ShowError ''Error'' ''Connection failed: API request failed: Connection refused'']"
proof -
  let ?w' = "scripted [Json (session_reply ''S1'')]"
  have h: "\<And>q. net (scripted []) (length (sent (scripted []))) q
             = RequestException ''Connection refused''"
    by (simp add: scripted_def)
  have s: "api created_widgets = Some (OllamaVisionAPI ''http://localhost:7801'')
           \<and> backend_var created_widgets = ''ollama'' \<and> dialogs created_widgets = []"
    by (simp add: created_widgets_def)
  have h': "(\<forall>q. net ?w' (length (sent ?w')) q = Json (session_reply ''S1''))
            \<and> j_session_id (session_reply ''S1'') = Some ''S1''
            \<and> (\<forall>q. net ?w' (Suc (length (sent ?w'))) q = RequestException ''Connection refused'')"
    by (simp add: scripted_def session_reply_def empty_reply_def)
  from transport_failure_outcomes
      [OF h, where a = "OllamaVisionAPI ''http://localhost:7801''"
         and url = "''http://localhost:5000''" and s = created_widgets and w' = ?w'
         and d = "session_reply ''S1''" and sid = "''S1''"] s h'
  have "fst (get_swarmui_session (OllamaVisionAPI ''http://localhost:7801'') (scripted []))
          = (failure ''Failed to get SwarmUI session: Connection refused'',
             OllamaVisionAPI ''http://localhost:7801'')"
    and "fst (connect_textgen (OllamaVisionAPI ''http://localhost:7801'')
            ''http://localhost:5000'' (scripted []))
          = Inl (Exception ''API request failed: Connection refused'')"
    and "fst (load_models created_widgets (scripted []))
          = showerror ''Error'' ''Failed to load models: API request failed: Connection refused''
              (cleared created_widgets)"
    and "fst (connect_backend created_widgets ?w')
          = showerror ''Error'' ''Connection failed: API request failed: Connection refused''
              (with_session
                 ((OllamaVisionAPI (swarmui_url_var created_widgets))
                    \<lparr>session_id := Some ''S1''\<rparr>) created_widgets)"
    by simp_all
  then show ?thesis
    using s by (simp add: showerror_def cleared_def with_session_def)
qed

text \<open>
  Claim C1 as stated fails: with the connection refused, \<open>connect_ollama\<close> ends in a
  raised exception, not in a returned failure value.
\<close>

theorem gateway_call_raises_on_refused_connection:
  "fst (connect_ollama (OllamaVisionAPI ''http://localhost:7801'') ''http://localhost:11434''
          True (scripted [RequestException ''Connection refused'']))
     = Inl (Exception ''API request failed: Connection refused'')"
  by (simp add: connect_ollama_def make_request_def http_eq scripted_def)

subsection \<open>Request bodies\<close>

lemma analyze_image_data_fields:
  "analyze_image_data img m b p t n url k site sp =
     [(''model'', JStr m), (''backendType'', JStr b), (''imageData'', JStr img),
      (''prompt'', JStr p), (''temperature'', JFloat t), (''maxTokens'', JInt n)]
     @ system_prompt_field sp @ backend_fields b url k site"
  by (cases sp)
     (simp_all add: analyze_image_data_def add_backend_fields_def add_system_prompt_def
        system_prompt_field_def backend_fields_def truthy_def)

lemma batch_caption_images_data_fields:
  "batch_caption_images_data folder m b style trigger t n url k site =
     [(''folderPath'', JStr folder), (''model'', JStr m), (''backendType'', JStr b),
      (''captionStyle'', JStr style), (''triggerWord'', JStr trigger),
      (''temperature'', JFloat t), (''maxTokens'', JInt n)]
     @ backend_fields b url k site"
  by (simp add: batch_caption_images_data_def add_backend_fields_def backend_fields_def)

lemma enhance_text_prompt_data_fields:
  "enhance_text_prompt_data m b p t n url k site sp =
     [(''model'', JStr m), (''backendType'', JStr b), (''prompt'', JStr p),
      (''temperature'', JFloat t), (''maxTokens'', JInt n)]
     @ system_prompt_field sp @ backend_fields b url k site"
  by (cases sp)
     (simp_all add: enhance_text_prompt_data_def add_backend_fields_def add_system_prompt_def
        system_prompt_field_def backend_fields_def truthy_def)

lemma sent_validate_textgen:
  assumes "backend_var s = ''textgen''" and "ollama_url_var s \<noteq> []"
  shows "sent (snd (validate_backend s a w)) =
           sent w @ [\<lparr>req_method = POST, req_url = base_url a @ ''/API/ConnectToTextGenAsync'',
                      req_headers = headers a,
                      req_json = Some (data_with_session a
                                         [(''textgenUrl'', JStr (ollama_url_var s))]),
                      req_timeout = 120\<rparr>]"
  using assms sent_make_request [of a "''ConnectToTextGenAsync''"
      "connect_textgen_data (ollama_url_var s)" w]
  by (auto simp: validate_backend_def connect_textgen_def connect_textgen_data_def truthy_def
        Let_def split: prod.splits sum.splits)

lemma sent_validate_ollama:
  assumes "backend_var s = ''ollama''"
  shows "sent (snd (validate_backend s a w)) =
           sent w @ [\<lparr>req_method = POST, req_url = base_url a @ ''/API/ConnectToOllamaAsync'',
                      req_headers = headers a,
                      req_json = Some (data_with_session a
                                         [(''ollamaUrl'', JStr (ollama_url_var s)),
                                          (''showAllModels'', JBool True)]),
                      req_timeout = 120\<rparr>]"
  using assms sent_make_request [of a "''ConnectToOllamaAsync''"
      "connect_ollama_data (ollama_url_var s) True" w]
  by (auto simp: validate_backend_def connect_ollama_def connect_ollama_data_def
        split: prod.splits sum.splits)

text \<open>
  Claim C3, as the code has it. The body of an analyze, batch caption or enhance request
  is the fixed fields of the operation, with \<^verbatim>\<open>backendType\<close> the name of the backend, then
  \<^verbatim>\<open>systemPrompt\<close> exactly for a non-empty override, then the fields of the backend:
  \<^verbatim>\<open>ollamaUrl\<close> for Ollama; \<^verbatim>\<open>apiKey\<close> for OpenAI; \<^verbatim>\<open>apiKey\<close> and \<^verbatim>\<open>siteName\<close> for
  OpenRouter; nothing for TextGen, whose URL these requests do not carry. The URL of
  TextGen goes out in the connect call only, as \<^verbatim>\<open>textgenUrl\<close>, and is read from the
  same field as the \<^verbatim>\<open>ollamaUrl\<close> of the Ollama connect call.
\<close>

theorem request_fields_by_backend:
  "analyze_image_data img m b p t n url k site sp =
     [(''model'', JStr m), (''backendType'', JStr b), (''imageData'', JStr img),
      (''prompt'', JStr p), (''temperature'', JFloat t), (''maxTokens'', JInt n)]
     @ system_prompt_field sp @ backend_fields b url k site
   \<and> batch_caption_images_data folder m b style trigger t n url k site =
     [(''folderPath'', JStr folder), (''model'', JStr m), (''backendType'', JStr b),
      (''captionStyle'', JStr style), (''triggerWord'', JStr trigger),
      (''temperature'', JFloat t), (''maxTokens'', JInt n)]
     @ backend_fields b url k site
   \<and> enhance_text_prompt_data m b p t n url k site sp =
     [(''model'', JStr m), (''backendType'', JStr b), (''prompt'', JStr p),
      (''temperature'', JFloat t), (''maxTokens'', JInt n)]
     @ system_prompt_field sp @ backend_fields b url k site
   \<and> (backend_var s = ''textgen'' \<and> ollama_url_var s \<noteq> [] \<longrightarrow>
        body_sent (snd (validate_backend s a w)) =
          Some (data_with_session a [(''textgenUrl'', JStr (ollama_url_var s))]))
   \<and> (backend_var s = ''ollama'' \<longrightarrow>
        body_sent (snd (validate_backend s a w)) =
          Some (data_with_session a [(''ollamaUrl'', JStr (ollama_url_var s)),
                                     (''showAllModels'', JBool True)]))
   \<and> default_site_name = ''SwarmUI''"
  by (simp add: analyze_image_data_fields batch_caption_images_data_fields
        enhance_text_prompt_data_fields body_sent_snoc [OF sent_validate_textgen]
        body_sent_snoc [OF sent_validate_ollama] default_site_name_def)

theorem request_fields_by_backend_witness:
  "enhance_text_prompt_data ''gpt-4o'' ''openrouter'' ''a cat'' 0.8 500
       ''http://localhost:11434'' (Some ''sk-test'') ''SwarmUI'' (Some ''Enhance the following text:'')
     = [(''model'', JStr ''gpt-4o''), (''backendType'', JStr ''openrouter''),
        (''prompt'', JStr ''a cat''), (''temperature'', JFloat 0.8), (''maxTokens'', JInt 500),
        (''systemPrompt'', JStr ''Enhance the following text:''),
        (''apiKey'', JStr ''sk-test''), (''siteName'', JStr ''SwarmUI'')]
   \<and> body_sent (snd (validate_backend (created_widgets\<lparr>backend_var := ''textgen''\<rparr>)
                        (OllamaVisionAPI ''http://localhost:7801'') (scripted [])))
     = Some [(''textgenUrl'', JStr ''http://localhost:11434'')]"
proof -
  have u: "ollama_url_var created_widgets = ''http://localhost:11434''"
    by (simp add: created_widgets_def)
  show ?thesis
    using request_fields_by_backend
      [where m = "''gpt-4o''" and b = "''openrouter''" and p = "''a cat''" and t = "0.8"
         and n = 500 and url = "''http://localhost:11434''" and k = "Some ''sk-test''"
         and site = "''SwarmUI''" and sp = "Some ''Enhance the following text:''"
         and s = "created_widgets\<lparr>backend_var := ''textgen''\<rparr>"
         and a = "OllamaVisionAPI ''http://localhost:7801''" and w = "scripted []"
         and img = "[]" and folder = "[]" and style = "[]" and trigger = "[]"]
    by (simp add: u system_prompt_field_def backend_fields_def data_with_session_def
          OllamaVisionAPI_def default_site_name_def)
qed

text \<open>
  Claim C3 as stated fails for TextGen: the body of an analyze request for the backend
  \<^verbatim>\<open>textgen\<close> has the six fixed fields and no URL field.
\<close>

theorem textgen_request_has_no_url_field:
  "analyze_image_data ''data:image/png;base64,AAAA'' ''llava'' ''textgen''
       ''Describe this image in detail'' 0.8 500 ''http://localhost:5000'' None ''SwarmUI'' None
     = [(''model'', JStr ''llava''), (''backendType'', JStr ''textgen''),
        (''imageData'', JStr ''data:image/png;base64,AAAA''),
        (''prompt'', JStr ''Describe this image in detail''),
        (''temperature'', JFloat 0.8), (''maxTokens'', JInt 500)]"
  by (simp add: analyze_image_data_def add_backend_fields_def add_system_prompt_def)

subsection \<open>The session field\<close>

lemma keys_system_prompt_field: "fst ` set (system_prompt_field sp) \<subseteq> {''systemPrompt''}"
  by (auto simp: system_prompt_field_def split: option.splits if_splits)

lemma keys_backend_fields:
  "fst ` set (backend_fields b url k site) \<subseteq> {''ollamaUrl'', ''apiKey'', ''siteName''}"
  by (auto simp: backend_fields_def split: if_splits)

lemma no_session_key_analyze:
  "''session_id'' \<notin> fst ` set (analyze_image_data img m b p t n url k site sp)"
  using keys_system_prompt_field [of sp] keys_backend_fields [of b url k site]
  by (auto simp: analyze_image_data_fields image_Un)

lemma no_session_key_batch:
  "''session_id'' \<notin> fst ` set (batch_caption_images_data folder m b style trigger t n url k site)"
  using keys_backend_fields [of b url k site]
  by (auto simp: batch_caption_images_data_fields image_Un)

lemma no_session_key_enhance:
  "''session_id'' \<notin> fst ` set (enhance_text_prompt_data m b p t n url k site sp)"
  using keys_system_prompt_field [of sp] keys_backend_fields [of b url k site]
  by (auto simp: enhance_text_prompt_data_fields image_Un)

lemma update_new_key: "k \<notin> fst ` set al \<Longrightarrow> AList.update k v al = al @ [(k, v)]"
  by (induction al) auto

lemma data_with_session_eq:
  assumes "''session_id'' \<notin> fst ` set data"
  shows "data_with_session a data =
           (case session_id a of
              None \<Rightarrow> data
            | Some t \<Rightarrow> if t = [] then data else data @ [(''session_id'', JStr t)])"
  using assms
  by (cases "session_id a") (simp_all add: data_with_session_def truthy_def update_new_key)

text \<open>
  Claim C6. A body handed to \<open>make_request\<close> without a \<^verbatim>\<open>session_id\<close> key goes out
  with the field \<^verbatim>\<open>session_id\<close> added at its end, holding the token, when the client has
  a token (\<^verbatim>\<open>if self.session_id:\<close>, that is, one that is set and not the empty string), and
  goes out unchanged, without the field, when it has none. The bodies of the five gateway
  calls have no such key of their own, so this holds for each of them; the session
  bootstrap itself always sends the empty body.
\<close>

theorem session_field_of_gateway_requests:
  "(''session_id'' \<notin> fst ` set data \<longrightarrow>
      body_sent (snd (make_request a endpoint data w)) =
        Some (case session_id a of
                None \<Rightarrow> data
              | Some t \<Rightarrow> if t = [] then data else data @ [(''session_id'', JStr t)]))
   \<and> ''session_id'' \<notin> fst ` set (connect_ollama_data url show_all)
   \<and> ''session_id'' \<notin> fst ` set (connect_textgen_data url)
   \<and> ''session_id'' \<notin> fst ` set (analyze_image_data img m b p t n url k site sp)
   \<and> ''session_id'' \<notin> fst ` set (batch_caption_images_data folder m b style trigger t n url k site)
   \<and> ''session_id'' \<notin> fst ` set (enhance_text_prompt_data m b p t n url k site sp)
   \<and> body_sent (snd (get_swarmui_session a w)) = Some []"
proof -
  have "body_sent (snd (get_swarmui_session a w)) = Some []"
    by (simp add: get_swarmui_session_def http_eq body_sent_def
          split: http_result.splits option.splits)
  moreover have "''session_id'' \<notin> fst ` set data \<longrightarrow>
      body_sent (snd (make_request a endpoint data w)) =
        Some (case session_id a of
                None \<Rightarrow> data
              | Some t \<Rightarrow> if t = [] then data else data @ [(''session_id'', JStr t)])"
    by (simp add: body_sent_snoc [OF sent_make_request] data_with_session_eq)
  ultimately show ?thesis
    using no_session_key_analyze no_session_key_batch no_session_key_enhance
    by (simp add: connect_ollama_data_def connect_textgen_data_def)
qed

theorem session_field_of_gateway_requests_witness:
  "''session_id'' \<notin> fst ` set (connect_ollama_data ''http://localhost:11434'' True)
   \<and> body_sent (snd (make_request
        ((OllamaVisionAPI ''http://localhost:7801'')\<lparr>session_id := Some ''S1''\<rparr>)
        ''ConnectToOllamaAsync'' (connect_ollama_data ''http://localhost:11434'' True)
        (scripted [])))
     = Some [(''ollamaUrl'', JStr ''http://localhost:11434''), (''showAllModels'', JBool True),
             (''session_id'', JStr ''S1'')]
   \<and> body_sent (snd (make_request (OllamaVisionAPI ''http://localhost:7801'')
        ''ConnectToOllamaAsync'' (connect_ollama_data ''http://localhost:11434'' True)
        (scripted [])))
     = Some [(''ollamaUrl'', JStr ''http://localhost:11434''), (''showAllModels'', JBool True)]"
  using session_field_of_gateway_requests
      [of "connect_ollama_data ''http://localhost:11434'' True"
          "(OllamaVisionAPI ''http://localhost:7801'')\<lparr>session_id := Some ''S1''\<rparr>"
          "''ConnectToOllamaAsync''" "scripted []"]
    session_field_of_gateway_requests
      [of "connect_ollama_data ''http://localhost:11434'' True"
          "OllamaVisionAPI ''http://localhost:7801''"
          "''ConnectToOllamaAsync''" "scripted []"]
  by (simp add: connect_ollama_data_def OllamaVisionAPI_def)

subsection \<open>Provider listings\<close>

lemma provider_models_ok:
  assumes "\<And>q. net w (length (sent w)) q = Json d"
  shows "provider_models url label key w =
           (empty_reply\<lparr>j_success := Some True,
              j_models := Some (filter (\<lambda>i. i \<noteq> []) (map entry_id (get_or (j_data d) [])))\<rparr>,
            w\<lparr>sent := sent w @ [\<lparr>req_method = GET, req_url = url,
                 req_headers = [(''Authorization'', ''Bearer '' @ key),
                                (''Content-Type'', ''application/json'')],
                 req_json = None, req_timeout = 60\<rparr>]\<rparr>)"
  using assms
  by (simp add: provider_models_def http_eq collect_model_ids_def get_or_def truthy_eq)

lemma sent_load_models_provider:
  assumes "\<And>q. net w (length (sent w)) q = Json d" and "api s = Some a"
    and "api_key_var s \<noteq> []"
  shows "backend_var s = ''openai'' \<Longrightarrow>
           sent (snd (load_models s w)) =
             sent w @ [\<lparr>req_method = GET, req_url = ''https://api.openai.com/v1/models'',
                        req_headers = [(''Authorization'', ''Bearer '' @ api_key_var s),
                                       (''Content-Type'', ''application/json'')],
                        req_json = None, req_timeout = 60\<rparr>]"
    and "backend_var s = ''openrouter'' \<Longrightarrow>
           sent (snd (load_models s w)) =
             sent w @ [\<lparr>req_method = GET, req_url = ''https://openrouter.ai/api/v1/models'',
                        req_headers = [(''Authorization'', ''Bearer '' @ api_key_var s),
                                       (''Content-Type'', ''application/json'')],
                        req_json = None, req_timeout = 60\<rparr>]"
  using assms(2,3)
  by (simp_all add: load_models_def get_openai_models_def get_openrouter_models_def
        provider_models_ok [OF assms(1)] get_success_def empty_reply_def truthy_def Let_def)

text \<open>
  Claim C7. When the provider answers, \<open>get_openai_models\<close> and
  \<open>get_openrouter_models\<close> return success with the ids of the entries of \<^verbatim>\<open>data\<close>, in
  the order of the response and unchanged; the one test applied to an entry is that it has
  an id other than the empty string. The request is a \<^verbatim>\<open>GET\<close> to the address of the
  provider, whatever the gateway address of the client, with the key handed over as
  \<^verbatim>\<open>Authorization: Bearer\<close>; \<open>load_models\<close> hands over the content of the key field.
\<close>

theorem provider_listing_returns_all_ids:
  assumes "\<And>q. net w (length (sent w)) q = Json d"
  shows "fst (get_openai_models a key w) =
           empty_reply\<lparr>j_success := Some True,
             j_models := Some (filter (\<lambda>i. i \<noteq> []) (map entry_id (get_or (j_data d) [])))\<rparr>
       \<and> sent (snd (get_openai_models a key w)) =
           sent w @ [\<lparr>req_method = GET, req_url = ''https://api.openai.com/v1/models'',
                      req_headers = [(''Authorization'', ''Bearer '' @ key),
                                     (''Content-Type'', ''application/json'')],
                      req_json = None, req_timeout = 60\<rparr>]
       \<and> fst (get_openrouter_models a key w) =
           empty_reply\<lparr>j_success := Some True,
             j_models := Some (filter (\<lambda>i. i \<noteq> []) (map entry_id (get_or (j_data d) [])))\<rparr>
       \<and> sent (snd (get_openrouter_models a key w)) =
           sent w @ [\<lparr>req_method = GET, req_url = ''https://openrouter.ai/api/v1/models'',
                      req_headers = [(''Authorization'', ''Bearer '' @ key),
                                     (''Content-Type'', ''application/json'')],
                      req_json = None, req_timeout = 60\<rparr>]
       \<and> (\<forall>i. i \<noteq> [] \<and> Some i \<in> set (get_or (j_data d) []) \<longrightarrow>
              i \<in> set (get_or (j_models (fst (get_openai_models a key w))) [])
            \<and> i \<in> set (get_or (j_models (fst (get_openrouter_models a key w))) []))
       \<and> (api s = Some a \<and> api_key_var s \<noteq> [] \<and> backend_var s = ''openai'' \<longrightarrow>
            sent (snd (load_models s w)) =
              sent w @ [\<lparr>req_method = GET, req_url = ''https://api.openai.com/v1/models'',
                         req_headers = [(''Authorization'', ''Bearer '' @ api_key_var s),
                                        (''Content-Type'', ''application/json'')],
                         req_json = None, req_timeout = 60\<rparr>])
       \<and> (api s = Some a \<and> api_key_var s \<noteq> [] \<and> backend_var s = ''openrouter'' \<longrightarrow>
            sent (snd (load_models s w)) =
              sent w @ [\<lparr>req_method = GET, req_url = ''https://openrouter.ai/api/v1/models'',
                         req_headers = [(''Authorization'', ''Bearer '' @ api_key_var s),
                                        (''Content-Type'', ''application/json'')],
                         req_json = None, req_timeout = 60\<rparr>])"
proof -
  have mem: "i \<in> set (filter (\<lambda>i. i \<noteq> []) (map entry_id es))"
    if "i \<noteq> []" and "Some i \<in> set es" for i es
    using that by (force simp: entry_id_def)
  have "\<forall>i. i \<noteq> [] \<and> Some i \<in> set (get_or (j_data d) []) \<longrightarrow>
          i \<in> set (filter (\<lambda>i. i \<noteq> []) (map entry_id (get_or (j_data d) [])))"
    using mem by blast
  then show ?thesis
    using sent_load_models_provider [OF assms, of s a]
    by (simp add: get_openai_models_def get_openrouter_models_def
          provider_models_ok [OF assms] empty_reply_def get_or_def [of "Some _"])
qed

theorem provider_listing_returns_all_ids_witness:
  "fst (get_openai_models (OllamaVisionAPI ''http://localhost:7801'') ''sk-test''
          (scripted [Json (empty_reply\<lparr>j_data := Some [Some ''gpt-4o'', None,
                                                        Some ''text-embedding-3-small'']\<rparr>)]))
     = empty_reply\<lparr>j_success := Some True,
         j_models := Some [''gpt-4o'', ''text-embedding-3-small'']\<rparr>
   \<and> sent (snd (get_openai_models (OllamaVisionAPI ''http://localhost:7801'') ''sk-test''
          (scripted [Json (empty_reply\<lparr>j_data := Some [Some ''gpt-4o'', None,
                                                        Some ''text-embedding-3-small'']\<rparr>)])))
     = [\<lparr>req_method = GET, req_url = ''https://api.openai.com/v1/models'',
         req_headers = [(''Authorization'', ''Bearer sk-test''),
                        (''Content-Type'', ''application/json'')],
         req_json = None, req_timeout = 60\<rparr>]"
proof -
  let ?d = "empty_reply\<lparr>j_data := Some [Some ''gpt-4o'', None, Some ''text-embedding-3-small'']\<rparr>"
  have h: "\<And>q. net (scripted [Json ?d]) (length (sent (scripted [Json ?d]))) q = Json ?d"
    by (simp add: scripted_def)
  show ?thesis
    using provider_listing_returns_all_ids
      [OF h, of "OllamaVisionAPI ''http://localhost:7801''" "''sk-test''"]
    by (simp add: get_or_def entry_id_def empty_reply_def scripted_def)
qed

section \<open>The model catalog\<close>

lemma str_contains_iff: "str_contains s p \<longleftrightarrow> (\<exists>pre post. s = pre @ p @ post)"
proof -
  have sw: "startswith s p \<longleftrightarrow> (\<exists>post. s = p @ post)" for s p
    by (induction s p rule: startswith.induct) auto
  show ?thesis
  proof (induction s)
    case Nil
    then show ?case by simp
  next
    case (Cons c cs)
    show ?case
    proof
      assume "str_contains (c # cs) p"
      then consider "startswith (c # cs) p" | "str_contains cs p" by auto
      then show "\<exists>pre post. c # cs = pre @ p @ post"
      proof cases
        case 1
        then obtain post where "c # cs = p @ post" using sw by blast
        then have "c # cs = [] @ p @ post" by simp
        then show ?thesis by blast
      next
        case 2
        then obtain pre post where "cs = pre @ p @ post" using Cons.IH by blast
        then have "c # cs = (c # pre) @ p @ post" by simp
        then show ?thesis by blast
      qed
    next
      assume "\<exists>pre post. c # cs = pre @ p @ post"
      then obtain pre post where e: "c # cs = pre @ p @ post" by blast
      show "str_contains (c # cs) p"
      proof (cases pre)
        case Nil
        with e have "startswith (c # cs) p" using sw by auto
        then show ?thesis by simp
      next
        case (Cons x xs)
        with e have "cs = xs @ p @ post" by simp
        then have "str_contains cs p" using Cons.IH by blast
        then show ?thesis by simp
      qed
    qed
  qed
qed

lemma store_models_fields:
  "all_models (store_models ms s) = sort ms"
  "filtered_models (store_models ms s) = sort ms"
  "available_models (store_models ms s) = sort ms"
  "models_listbox (store_models ms s) = sort ms"
  "model_search_var (store_models ms s) = model_search_var s"
  "default_model_var (store_models ms s) = default_model_var s"
  "selected_model (store_models ms s) = selected_model s"
  "is_connected (store_models ms s) = is_connected s"
  by (simp_all add: store_models_def update_models_display_def Let_def)

lemma cleared_fields:
  "all_models (cleared s) = all_models s"
  "filtered_models (cleared s) = filtered_models s"
  "available_models (cleared s) = []"
  "model_search_var (cleared s) = model_search_var s"
  "default_model_var (cleared s) = default_model_var s"
  "selected_model (cleared s) = selected_model s"
  "is_connected (cleared s) = is_connected s"
  by (simp_all add: cleared_def)

lemma make_request_answered:
  assumes "\<And>q. net w (length (sent w)) q = Json d"
  shows "make_request a endpoint data w =
           (Inr d, w\<lparr>sent := sent w @ [\<lparr>req_method = POST,
              req_url = base_url a @ ''/API/'' @ endpoint, req_headers = headers a,
              req_json = Some (data_with_session a data), req_timeout = 120\<rparr>]\<rparr>)"
  using assms by (simp add: make_request_def http_eq)

lemma load_models_ollama:
  assumes "\<And>q. net w (length (sent w)) q = Json d" and "api s = Some a"
    and "backend_var s = ''ollama''" and "get_success d" and "j_models d = Some ms"
  shows "fst (load_models s w) = store_models ms (cleared s)"
  unfolding load_models_def connect_ollama_def Let_def
  using assms(2-5)
  by (simp add: make_request_answered [OF assms(1)] cleared_def)

lemma load_models_provider:
  assumes "\<And>q. net w (length (sent w)) q = Json d" and "api s = Some a"
    and "backend_var s = ''openai'' \<or> backend_var s = ''openrouter''"
    and "api_key_var s \<noteq> []"
  shows "fst (load_models s w) =
           store_models (filter (\<lambda>i. i \<noteq> []) (map entry_id (get_or (j_data d) []))) (cleared s)"
proof -
  have pm: "provider_models url label key w =
           (empty_reply\<lparr>j_success := Some True,
              j_models := Some (filter (\<lambda>i. i \<noteq> []) (map entry_id (get_or (j_data d) [])))\<rparr>,
            w\<lparr>sent := sent w @ [\<lparr>req_method = GET, req_url = url,
                 req_headers = [(''Authorization'', ''Bearer '' @ key),
                                (''Content-Type'', ''application/json'')],
                 req_json = None, req_timeout = 60\<rparr>]\<rparr>)" for url label key
    using assms(1)
    by (simp add: provider_models_def http_eq collect_model_ids_def get_or_def truthy_eq)
  have ok: "get_success (empty_reply\<lparr>j_success := Some True, j_models := Some xs\<rparr>)" for xs
    by (simp add: get_success_def)
  from assms(3) show ?thesis
  proof
    assume "backend_var s = ''openai''"
    with assms(2,4) show ?thesis
      unfolding load_models_def Let_def get_openai_models_def
      by (simp add: pm ok truthy_def cleared_def)
  next
    assume "backend_var s = ''openrouter''"
    with assms(2,4) show ?thesis
      unfolding load_models_def Let_def get_openrouter_models_def
      by (simp add: pm ok truthy_def cleared_def)
  qed
qed

text \<open>
  Claim C9. The gateway lists \<^verbatim>\<open>llava\<close>, \<^verbatim>\<open>qwen-vl\<close>, \<^verbatim>\<open>bakllava\<close>; \<open>load_models\<close>
  sorts the list; the search text \<^verbatim>\<open>ll\<close> then leaves \<^verbatim>\<open>bakllava\<close> and \<^verbatim>\<open>llava\<close>, in
  catalog order, and the count label reads \<^verbatim>\<open>Showing 2 of 3 models\<close>.
\<close>

theorem filter_scenario:
  "all_models (fst (load_models created_widgets
       (scripted [Json (catalog_reply [''llava'', ''qwen-vl'', ''bakllava''])])))
     = [''bakllava'', ''llava'', ''qwen-vl'']
   \<and> filtered_models (set_model_search ''ll'' (fst (load_models created_widgets
       (scripted [Json (catalog_reply [''llava'', ''qwen-vl'', ''bakllava''])]))))
     = [''bakllava'', ''llava'']
   \<and> model_count_var (set_model_search ''ll'' (fst (load_models created_widgets
       (scripted [Json (catalog_reply [''llava'', ''qwen-vl'', ''bakllava''])]))))
     = ''Showing 2 of 3 models''
   \<and> filtered_models (set_model_search ''LL'' (fst (load_models created_widgets
       (scripted [Json (catalog_reply [''llava'', ''qwen-vl'', ''bakllava''])]))))
     = [''bakllava'', ''llava'']"
  by code_simp

theorem filter_scenario_witness:
  "length (filtered_models (set_model_search ''ll'' (fst (load_models created_widgets
       (scripted [Json (catalog_reply [''llava'', ''qwen-vl'', ''bakllava''])]))))) = 2"
  using filter_scenario by simp

text \<open>
  Claim C10. Whenever \<open>load_models\<close> stores a list (the gateway answers the Ollama
  listing with success and a \<^verbatim>\<open>models\<close> field, or a provider answers the listing made
  with a non-empty key), the catalog, the filtered list, the list box and
  \<^verbatim>\<open>available_models\<close> all become the sorted list, and the search text stays as it was:
  the filter is not applied to the new catalog, whatever the search text is.
\<close>

theorem reload_ignores_search_text:
  assumes "\<And>q. net w (length (sent w)) q = Json d" and "api s = Some a"
  shows "(backend_var s = ''ollama'' \<and> get_success d \<and> j_models d = Some ms \<longrightarrow>
            all_models (fst (load_models s w)) = sort ms
          \<and> filtered_models (fst (load_models s w)) = sort ms
          \<and> available_models (fst (load_models s w)) = sort ms
          \<and> models_listbox (fst (load_models s w)) = sort ms
          \<and> model_search_var (fst (load_models s w)) = model_search_var s)
       \<and> ((backend_var s = ''openai'' \<or> backend_var s = ''openrouter'') \<and> api_key_var s \<noteq> []
            \<and> ids = filter (\<lambda>i. i \<noteq> []) (map entry_id (get_or (j_data d) [])) \<longrightarrow>
            all_models (fst (load_models s w)) = sort ids
          \<and> filtered_models (fst (load_models s w)) = sort ids
          \<and> available_models (fst (load_models s w)) = sort ids
          \<and> models_listbox (fst (load_models s w)) = sort ids
          \<and> model_search_var (fst (load_models s w)) = model_search_var s)"
  using load_models_ollama [OF assms] load_models_provider [OF assms]
  by (auto simp: store_models_fields cleared_fields)

theorem reload_ignores_search_text_witness:
  "model_search_var (set_model_search ''ll'' created_widgets) = ''ll''
   \<and> filtered_models (fst (load_models (set_model_search ''ll'' created_widgets)
        (scripted [Json (catalog_reply [''llava'', ''qwen-vl'', ''bakllava''])])))
     = [''bakllava'', ''llava'', ''qwen-vl'']
   \<and> model_search_var (fst (load_models (set_model_search ''ll'' created_widgets)
        (scripted [Json (catalog_reply [''llava'', ''qwen-vl'', ''bakllava''])])))
     = ''ll''
   \<and> filtered_models (filter_models (fst (load_models (set_model_search ''ll'' created_widgets)
        (scripted [Json (catalog_reply [''llava'', ''qwen-vl'', ''bakllava''])]))))
     = [''bakllava'', ''llava'']"
proof -
  let ?d = "catalog_reply [''llava'', ''qwen-vl'', ''bakllava'']"
  let ?s = "set_model_search ''ll'' created_widgets"
  have h: "\<And>q. net (scripted [Json ?d]) (length (sent (scripted [Json ?d]))) q = Json ?d"
    by (simp add: scripted_def)
  have a: "api ?s = Some (OllamaVisionAPI ''http://localhost:7801'')"
    and b: "backend_var ?s = ''ollama''" and t: "model_search_var ?s = ''ll''"
    by (simp_all add: set_model_search_def filter_models_def update_models_display_def
          created_widgets_def Let_def)
  have d: "get_success ?d \<and> j_models ?d = Some [''llava'', ''qwen-vl'', ''bakllava'']"
    by (simp add: catalog_reply_def get_success_def empty_reply_def)
  have f: "filtered_models (filter_models (fst (load_models ?s (scripted [Json ?d]))))
             = [''bakllava'', ''llava'']"
    by code_simp
  show ?thesis
    using reload_ignores_search_text
      [OF h a, of "[''llava'', ''qwen-vl'', ''bakllava'']"] b d t f
    by simp
qed

section \<open>Settings\<close>

lemma key_field_consistent_created: "key_field_consistent created_widgets"
  by (simp add: key_field_consistent_def created_widgets_def)

lemma key_field_consistent_on_backend_change: "key_field_consistent (on_backend_change s)"
  by (simp add: key_field_consistent_def on_backend_change_def Let_def)

lemma key_field_consistent_select_backend: "key_field_consistent (select_backend b s)"
  by (simp add: select_backend_def key_field_consistent_on_backend_change)

lemma key_field_consistent_load_settings:
  "key_field_consistent s \<Longrightarrow> key_field_consistent (load_settings s w)"
proof (cases "settings_file w")
  case None
  then show "key_field_consistent s \<Longrightarrow> ?thesis" by (simp add: load_settings_def)
next
  case (Some st)
  have "key_field_consistent (update_default_model_display (on_backend_change t))" for t
    using key_field_consistent_on_backend_change [of t]
    by (simp add: key_field_consistent_def update_default_model_display_def Let_def)
  with Some show ?thesis by (simp add: load_settings_def Let_def)
qed

lemma key_field_consistent_auto_save:
  "key_field_consistent s \<Longrightarrow> key_field_consistent (fst (auto_save_settings s w))"
  by (auto simp: key_field_consistent_def auto_save_settings_def store_current_credential_def
        Let_def split: option.splits)

lemma key_field_consistent_save:
  "key_field_consistent s \<Longrightarrow> key_field_consistent (fst (save_settings s w))"
  by (auto simp: key_field_consistent_def save_settings_def store_current_credential_def
        showinfo_def showerror_def Let_def split: option.splits)

lemma key_field_consistent_type_api_key:
  "key_field_consistent s \<Longrightarrow> key_field_consistent (fst (type_api_key k s w))"
  by (auto simp: key_field_consistent_def type_api_key_def on_api_key_change_def
        api_key_entry_shown_def auto_save_settings_def store_current_credential_def
        Let_def split: option.splits)

lemma key_field_consistent_openai_user: "key_field_consistent openai_user"
  unfolding openai_user_def
  by (intro key_field_consistent_type_api_key key_field_consistent_select_backend)

lemma save_settings_ok:
  assumes "disk_error w = None"
  shows "save_settings s w =
           (showinfo ''Success'' ''Settings saved successfully!'' (store_current_credential s),
            w\<lparr>settings_file := Some (settings_dict (store_current_credential s))\<rparr>)"
  using assms by (simp add: save_settings_def Let_def)

lemma settings_dict_showinfo: "settings_dict (showinfo t m s) = settings_dict s"
  by (simp add: settings_dict_def showinfo_def)

lemma load_saved_settings:
  "load_settings s0 (w\<lparr>settings_file := Some (settings_dict t)\<rparr>) =
     update_default_model_display
       (on_backend_change
          ((if session_id_var t \<noteq> []
            then s0\<lparr>swarmui_url_var := swarmui_url_var t, backend_var := backend_var t,
                    ollama_url_var := ollama_url_var t, api_key_var := api_key_var t,
                    default_model_var := default_model_var t,
                    session_id_var := session_id_var t\<rparr>
            else s0\<lparr>swarmui_url_var := swarmui_url_var t, backend_var := backend_var t,
                    ollama_url_var := ollama_url_var t, api_key_var := api_key_var t,
                    default_model_var := default_model_var t\<rparr>)
             \<lparr>openai_api_key := openai_api_key t,
              openrouter_api_key := openrouter_api_key t, textgen_url := textgen_url t,
              temperature_var := temperature_var t, max_tokens_var := max_tokens_var t,
              top_p_var := top_p_var t, top_k_var := top_k_var t,
              repeat_penalty_var := repeat_penalty_var t, seed_var := seed_var t,
              frequency_penalty_var := frequency_penalty_var t,
              presence_penalty_var := presence_penalty_var t, min_p_var := min_p_var t,
              top_a_var := top_a_var t\<rparr>))"
  by (simp add: load_settings_def settings_dict_def get_or_def truthy_def Let_def)

lemma stored_credential_backend:
  "backend_var (store_current_credential s) = backend_var s"
  "openai_api_key (store_current_credential s) =
     (if backend_var s = ''openai'' then api_key_var s else openai_api_key s)"
  "openrouter_api_key (store_current_credential s) =
     (if backend_var s = ''openrouter'' then api_key_var s else openrouter_api_key s)"
  "textgen_url (store_current_credential s) =
     (if backend_var s = ''textgen'' then ollama_url_var s else textgen_url s)"
  "api_key_var (store_current_credential s) = api_key_var s"
  "ollama_url_var (store_current_credential s) = ollama_url_var s"
  "swarmui_url_var (store_current_credential s) = swarmui_url_var s"
  "default_model_var (store_current_credential s) = default_model_var s"
  "session_id_var (store_current_credential s) = session_id_var s"
  by (simp_all add: store_current_credential_def Let_def)

lemma stored_credential_parameters:
  "temperature_var (store_current_credential s) = temperature_var s"
  "max_tokens_var (store_current_credential s) = max_tokens_var s"
  "top_p_var (store_current_credential s) = top_p_var s"
  "top_k_var (store_current_credential s) = top_k_var s"
  "repeat_penalty_var (store_current_credential s) = repeat_penalty_var s"
  "seed_var (store_current_credential s) = seed_var s"
  "frequency_penalty_var (store_current_credential s) = frequency_penalty_var s"
  "presence_penalty_var (store_current_credential s) = presence_penalty_var s"
  "min_p_var (store_current_credential s) = min_p_var s"
  "top_a_var (store_current_credential s) = top_a_var s"
  by (simp_all add: store_current_credential_def Let_def)

lemma reload_fields:
  fixes w :: world
  assumes "key_field_consistent s" and "session_id_var s0 = []"
  defines "t \<equiv> store_current_credential s"
  defines "s2 \<equiv> load_settings s0 (w\<lparr>settings_file := Some (settings_dict t)\<rparr>)"
  shows "swarmui_url_var s2 = swarmui_url_var s" and "backend_var s2 = backend_var s"
    and "ollama_url_var s2 = ollama_url_var s" and "api_key_var s2 = api_key_var s"
    and "default_model_var s2 = default_model_var s"
    and "session_id_var s2 = session_id_var s"
    and "openai_api_key s2 = openai_api_key t"
    and "openrouter_api_key s2 = openrouter_api_key t"
    and "textgen_url s2 = textgen_url t"
    and "temperature_var s2 = temperature_var s" and "max_tokens_var s2 = max_tokens_var s"
    and "top_p_var s2 = top_p_var s" and "top_k_var s2 = top_k_var s"
    and "repeat_penalty_var s2 = repeat_penalty_var s" and "seed_var s2 = seed_var s"
    and "frequency_penalty_var s2 = frequency_penalty_var s"
    and "presence_penalty_var s2 = presence_penalty_var s"
    and "min_p_var s2 = min_p_var s" and "top_a_var s2 = top_a_var s"
  using assms(1,2) unfolding s2_def t_def load_saved_settings
  by (auto simp: update_default_model_display_def on_backend_change_def Let_def
        stored_credential_backend stored_credential_parameters key_field_consistent_def)

text \<open>
  Claim C8. Let \<open>s\<close> be a state in which \<^verbatim>\<open>save_settings\<close> runs and writes the file,
  and let the next start load it (\<^verbatim>\<open>load_settings\<close> runs once, at start-up, when the
  session display is still empty). The file holds the dictionary built from the state
  after the save; after the load every one of its nineteen fields is in the application
  state again: the Tk variables are those of \<open>s\<close>, the stored credentials are those the
  save has left, that is, those of \<open>s\<close> with the field on screen copied to the
  credential of the current backend.
\<close>

theorem settings_round_trip:
  assumes "disk_error w = None" and "key_field_consistent s" and "session_id_var s0 = []"
  shows "let s1 = fst (save_settings s w);
             w1 = snd (save_settings s w);
             s2 = load_settings s0 w1
         in settings_file w1 = Some (settings_dict s1)
          \<and> settings_dict s2 = settings_dict s1
          \<and> swarmui_url_var s2 = swarmui_url_var s \<and> backend_var s2 = backend_var s
          \<and> ollama_url_var s2 = ollama_url_var s \<and> api_key_var s2 = api_key_var s
          \<and> default_model_var s2 = default_model_var s
          \<and> session_id_var s2 = session_id_var s
          \<and> openai_api_key s2 = openai_api_key s1
          \<and> openrouter_api_key s2 = openrouter_api_key s1
          \<and> textgen_url s2 = textgen_url s1
          \<and> temperature_var s2 = temperature_var s \<and> max_tokens_var s2 = max_tokens_var s
          \<and> top_p_var s2 = top_p_var s \<and> top_k_var s2 = top_k_var s
          \<and> repeat_penalty_var s2 = repeat_penalty_var s \<and> seed_var s2 = seed_var s
          \<and> frequency_penalty_var s2 = frequency_penalty_var s
          \<and> presence_penalty_var s2 = presence_penalty_var s
          \<and> min_p_var s2 = min_p_var s \<and> top_a_var s2 = top_a_var s
          \<and> openai_api_key s1
               = (if backend_var s = ''openai'' then api_key_var s else openai_api_key s)
          \<and> openrouter_api_key s1
               = (if backend_var s = ''openrouter'' then api_key_var s
                  else openrouter_api_key s)
          \<and> textgen_url s1
               = (if backend_var s = ''textgen'' then ollama_url_var s else textgen_url s)"
proof -
  note f = reload_fields [OF assms(2,3), of w]
  have c: "openai_api_key (showinfo x y u) = openai_api_key u"
    "openrouter_api_key (showinfo x y u) = openrouter_api_key u"
    "textgen_url (showinfo x y u) = textgen_url u" for x y u
    by (simp_all add: showinfo_def)
  have d: "settings_dict (load_settings s0
             (w\<lparr>settings_file := Some (settings_dict (store_current_credential s))\<rparr>))
           = settings_dict (store_current_credential s)"
    unfolding settings_dict_def [of "load_settings s0 _"]
    by (simp only: f) (simp add: settings_dict_def stored_credential_backend
          stored_credential_parameters)
  show ?thesis
    unfolding Let_def save_settings_ok [OF assms(1)] fst_conv snd_conv
      settings_dict_showinfo c
    by (simp only: f d stored_credential_backend) simp
qed

theorem settings_round_trip_witness:
  "settings_dict (load_settings created_widgets (snd (save_settings openai_user (scripted []))))
     = settings_dict (fst (save_settings openai_user (scripted [])))
   \<and> backend_var (load_settings created_widgets (snd (save_settings openai_user (scripted []))))
     = ''openai''
   \<and> api_key_var (load_settings created_widgets (snd (save_settings openai_user (scripted []))))
     = ''sk-test''
   \<and> openai_api_key (load_settings created_widgets (snd (save_settings openai_user (scripted []))))
     = ''sk-test''"
proof -
  have d: "disk_error (scripted []) = None"
    by (simp add: scripted_def)
  have e: "session_id_var created_widgets = []"
    by (simp add: created_widgets_def)
  have u: "backend_var openai_user = ''openai''" "api_key_var openai_user = ''sk-test''"
    by (simp_all add: openai_user_def type_api_key_def select_backend_def
          on_backend_change_def on_api_key_change_def auto_save_settings_def
          store_current_credential_def api_key_entry_shown_def created_widgets_def
          scripted_def Let_def)
  show ?thesis
    using settings_round_trip [OF d key_field_consistent_openai_user e]
    by (simp add: Let_def u)
qed

section \<open>Connecting\<close>

lemma showerror_fields:
  "is_connected (showerror t m s) = is_connected s"
  "all_models (showerror t m s) = all_models s"
  "filtered_models (showerror t m s) = filtered_models s"
  "available_models (showerror t m s) = available_models s"
  "selected_model (showerror t m s) = selected_model s"
  "default_model_var (showerror t m s) = default_model_var s"
  "dialogs (showerror t m s) = dialogs s @ [ShowError t m]"
  by (simp_all add: showerror_def)

lemma with_session_fields:
  "is_connected (with_session a s) = is_connected s"
  "all_models (with_session a s) = all_models s"
  "filtered_models (with_session a s) = filtered_models s"
  "available_models (with_session a s) = available_models s"
  "selected_model (with_session a s) = selected_model s"
  "default_model_var (with_session a s) = default_model_var s"
  "dialogs (with_session a s) = dialogs s"
  "backend_var (with_session a s) = backend_var s"
  "api_key_var (with_session a s) = api_key_var s"
  "api (with_session a s) = Some a"
  by (simp_all add: with_session_def)

lemma load_models_cases:
  "(\<exists>ms. fst (load_models s w) = store_models ms (cleared s))
   \<or> (\<exists>ds. fst (load_models s w) = (cleared s)\<lparr>dialogs := ds\<rparr>)"
proof -
  have triv: "\<exists>ds. cleared s = (cleared s)\<lparr>dialogs := ds\<rparr>"
    by (rule exI [of _ "dialogs (cleared s)"]) simp
  have err: "\<And>t m. \<exists>ds. showerror t m (cleared s) = (cleared s)\<lparr>dialogs := ds\<rparr>"
    by (auto simp: showerror_def)
  show ?thesis
    unfolding load_models_def Let_def cleared_def [symmetric] load_models_failed_def
    using triv err
    by (auto split: option.splits prod.splits sum.splits exn.splits if_splits)
qed

lemma validate_backend_Returned:
  "validate_backend s a w = (Returned s3, w2) \<Longrightarrow> \<exists>m. s3 = showerror ''Error'' m s"
  by (auto simp: validate_backend_def Let_def split: if_splits prod.splits sum.splits)

lemma connect_backend_unfold:
  "connect_backend s w =
     (case session_step s w of
        ((r, a), w1) \<Rightarrow>
          if \<not> get_success r
          then (showerror ''Error'' (''Failed to get SwarmUI session: '' @ get_message r [])
                  (s\<lparr>api := Some a\<rparr>), w1)
          else
            (case validate_backend (with_session a s) a w1 of
               (Returned s3, w2) \<Rightarrow> (s3, w2)
             | (Raised (Exception e), w2) \<Rightarrow>
                 (showerror ''Error'' (''Connection failed: '' @ e) (with_session a s), w2)
             | (Result result, w2) \<Rightarrow>
                 if get_success result then
                   ((select_default_model
                       (update_default_model_display (fst (load_models (with_session a s) w2))))
                      \<lparr>is_connected := True\<rparr>, snd (load_models (with_session a s) w2))
                 else
                   (showerror ''Error''
                      (''Connection failed: '' @ get_message result ''Unknown error'')
                      (with_session a s), w2)))"
  unfolding connect_backend_def session_step_def update_session_id_display_def
    with_session_def Let_def
  by (auto split: prod.splits validation.splits exn.splits)

lemma connect_backend_failed:
  assumes "\<not> (bootstrap_ok s w \<and> validation_ok s w)"
  shows "connection_view (fst (connect_backend s w)) = connection_view s
       \<and> (\<exists>m. dialogs (fst (connect_backend s w)) = dialogs s @ [ShowError ''Error'' m])"
proof -
  obtain r a w1 where st: "session_step s w = ((r, a), w1)"
    by (metis prod.exhaust)
  show ?thesis
  proof (cases "get_success r")
    case False
    then show ?thesis
      by (simp add: connect_backend_unfold st showerror_def connection_view_def)
  next
    case True
    obtain v w2 where vb: "validate_backend (with_session a s) a w1 = (v, w2)"
      by (metis prod.exhaust)
    show ?thesis
    proof (cases v)
      case (Returned s3)
      with vb obtain m where "s3 = showerror ''Error'' m (with_session a s)"
        using validate_backend_Returned by blast
      with True Returned vb show ?thesis
        by (simp add: connect_backend_unfold st showerror_def connection_view_def
              with_session_def)
    next
      case (Raised e)
      with True vb show ?thesis
        by (cases e)
           (simp add: connect_backend_unfold st showerror_def connection_view_def
              with_session_def)
    next
      case (Result result)
      with assms True vb st have "\<not> get_success result"
        by (simp add: bootstrap_ok_def validation_ok_def)
      with True Result vb show ?thesis
        by (simp add: connect_backend_unfold st showerror_def connection_view_def
              with_session_def)
    qed
  qed
qed

lemma connect_backend_ok:
  assumes "bootstrap_ok s w" and "validation_ok s w"
  shows "\<exists>a w2. fst (connect_backend s w) =
           (select_default_model
              (update_default_model_display (fst (load_models (with_session a s) w2))))
             \<lparr>is_connected := True\<rparr>"
proof -
  obtain r a w1 where st: "session_step s w = ((r, a), w1)"
    by (metis prod.exhaust)
  obtain v w2 where vb: "validate_backend (with_session a s) a w1 = (v, w2)"
    by (metis prod.exhaust)
  from assms st vb obtain result where "v = Result result" "get_success result" "get_success r"
    by (cases v) (simp_all add: bootstrap_ok_def validation_ok_def)
  then show ?thesis
    using st vb by (auto simp: connect_backend_unfold)
qed

lemma select_default_model_fields:
  "all_models (select_default_model s) = all_models s"
  "filtered_models (select_default_model s) = filtered_models s"
  "available_models (select_default_model s) = available_models s"
  "default_model_var (select_default_model s) = default_model_var s"
  "selected_model (select_default_model s) =
     (case available_models s of
        [] \<Rightarrow> selected_model s
      | first_model # rest \<Rightarrow>
          Some (if strip (default_model_var s) \<noteq> []
                    \<and> strip (default_model_var s) \<in> set (available_models s)
                then strip (default_model_var s) else first_model))"
  by (simp_all add: select_default_model_def update_model_status_display_def truthy_def
        Let_def split: list.splits)

lemma update_default_model_display_fields:
  "all_models (update_default_model_display s) = all_models s"
  "filtered_models (update_default_model_display s) = filtered_models s"
  "available_models (update_default_model_display s) = available_models s"
  "default_model_var (update_default_model_display s) = default_model_var s"
  "selected_model (update_default_model_display s) = selected_model s"
  by (simp_all add: update_default_model_display_def Let_def)

text \<open>What a connect that reaches \<open>load_models\<close> leaves: a stored list, or no list.\<close>

lemma connect_backend_catalog:
  assumes "bootstrap_ok s w" and "validation_ok s w"
  defines "s' \<equiv> fst (connect_backend s w)"
  shows "is_connected s'"
    and "(\<exists>ms. all_models s' = sort ms \<and> filtered_models s' = sort ms
               \<and> available_models s' = sort ms
               \<and> selected_model s' =
                   (case sort ms of
                      [] \<Rightarrow> selected_model s
                    | first_model # rest \<Rightarrow>
                        Some (if strip (default_model_var s) \<noteq> []
                                  \<and> strip (default_model_var s) \<in> set (sort ms)
                              then strip (default_model_var s) else first_model)))
       \<or> (all_models s' = all_models s \<and> filtered_models s' = filtered_models s
            \<and> available_models s' = [] \<and> selected_model s' = selected_model s)"
proof -
  from connect_backend_ok [OF assms(1,2)] obtain a w2 where
    e: "s' = (select_default_model
              (update_default_model_display (fst (load_models (with_session a s) w2))))
             \<lparr>is_connected := True\<rparr>"
    unfolding s'_def by blast
  show "is_connected s'" by (simp add: e)
  let ?t = "with_session a s"
  from load_models_cases [of ?t w2]
  consider ms where "fst (load_models ?t w2) = store_models ms (cleared ?t)"
    | ds where "fst (load_models ?t w2) = (cleared ?t)\<lparr>dialogs := ds\<rparr>"
    by blast
  then show "(\<exists>ms. all_models s' = sort ms \<and> filtered_models s' = sort ms
               \<and> available_models s' = sort ms
               \<and> selected_model s' =
                   (case sort ms of
                      [] \<Rightarrow> selected_model s
                    | first_model # rest \<Rightarrow>
                        Some (if strip (default_model_var s) \<noteq> []
                                  \<and> strip (default_model_var s) \<in> set (sort ms)
                              then strip (default_model_var s) else first_model)))
       \<or> (all_models s' = all_models s \<and> filtered_models s' = filtered_models s
            \<and> available_models s' = [] \<and> selected_model s' = selected_model s)"
  proof cases
    case 1
    have "all_models s' = sort ms \<and> filtered_models s' = sort ms
               \<and> available_models s' = sort ms
               \<and> selected_model s' =
                   (case sort ms of
                      [] \<Rightarrow> selected_model s
                    | first_model # rest \<Rightarrow>
                        Some (if strip (default_model_var s) \<noteq> []
                                  \<and> strip (default_model_var s) \<in> set (sort ms)
                              then strip (default_model_var s) else first_model))"
      by (cases "sort ms")
         (simp_all add: e 1 select_default_model_fields update_default_model_display_fields
            store_models_fields cleared_fields with_session_fields)
    then show ?thesis by blast
  next
    case 2
    have "all_models s' = all_models s \<and> filtered_models s' = filtered_models s
            \<and> available_models s' = [] \<and> selected_model s' = selected_model s"
      by (simp add: e 2 select_default_model_fields update_default_model_display_fields
            cleared_fields with_session_fields)
    then show ?thesis by blast
  qed
qed

text \<open>
  Claim C2, as the code has it. When the session bootstrap or the validation of the
  backend fails, the connected flag, the three model lists and the selection are after
  \<open>connect_backend\<close> what they were before, and one error box has been added. When both
  succeed the call ends connected whatever \<open>load_models\<close> does: either a fetched list
  has been stored, or \<^verbatim>\<open>available_models\<close> is empty while the catalog, the filtered list
  and the selection are still the old ones.
\<close>

theorem connect_backend_failure_keeps_state:
  "(\<not> (bootstrap_ok s w \<and> validation_ok s w) \<longrightarrow>
       connection_view (fst (connect_backend s w)) = connection_view s
     \<and> (\<exists>m. dialogs (fst (connect_backend s w)) = dialogs s @ [ShowError ''Error'' m]))
   \<and> (bootstrap_ok s w \<and> validation_ok s w \<longrightarrow>
       is_connected (fst (connect_backend s w))
     \<and> ((\<exists>ms. all_models (fst (connect_backend s w)) = sort ms
              \<and> filtered_models (fst (connect_backend s w)) = sort ms
              \<and> available_models (fst (connect_backend s w)) = sort ms)
        \<or> (all_models (fst (connect_backend s w)) = all_models s
            \<and> filtered_models (fst (connect_backend s w)) = filtered_models s
            \<and> available_models (fst (connect_backend s w)) = []
            \<and> selected_model (fst (connect_backend s w)) = selected_model s)))"
proof (intro conjI impI)
  assume "\<not> (bootstrap_ok s w \<and> validation_ok s w)"
  from connect_backend_failed [OF this]
  show "connection_view (fst (connect_backend s w)) = connection_view s"
    and "\<exists>m. dialogs (fst (connect_backend s w)) = dialogs s @ [ShowError ''Error'' m]"
    by blast+
next
  assume ok: "bootstrap_ok s w \<and> validation_ok s w"
  then show "is_connected (fst (connect_backend s w))"
    using connect_backend_catalog(1) by blast
  from ok connect_backend_catalog(2) [of s w]
  show "(\<exists>ms. all_models (fst (connect_backend s w)) = sort ms
              \<and> filtered_models (fst (connect_backend s w)) = sort ms
              \<and> available_models (fst (connect_backend s w)) = sort ms)
        \<or> (all_models (fst (connect_backend s w)) = all_models s
            \<and> filtered_models (fst (connect_backend s w)) = filtered_models s
            \<and> available_models (fst (connect_backend s w)) = []
            \<and> selected_model (fst (connect_backend s w)) = selected_model s)"
    by blast
qed

theorem connect_backend_failure_keeps_state_witness:
  "connection_view (fst (connect_backend created_widgets (scripted [])))
     = connection_view created_widgets
   \<and> (\<exists>m. dialogs (fst (connect_backend created_widgets (scripted [])))
            = dialogs created_widgets @ [ShowError ''Error'' m])
   \<and> is_connected (fst (connect_backend padded_default_user two_models))"
proof -
  have 1: "\<not> (bootstrap_ok created_widgets (scripted [])
               \<and> validation_ok created_widgets (scripted []))"
    by code_simp
  have 2: "bootstrap_ok padded_default_user two_models
             \<and> validation_ok padded_default_user two_models"
    by code_simp
  show ?thesis
    using connect_backend_failure_keeps_state [of created_widgets "scripted []"]
      connect_backend_failure_keeps_state [of padded_default_user two_models] 1 2
    by blast
qed

text \<open>
  Claim C2 as stated fails: the session is issued, the key is present, the listing of the
  provider fails, and the call still ends connected, with an empty model list.
\<close>

theorem connected_after_failed_catalog_fetch:
  "connection_view openai_user = (False, [], [], [], None)
   \<and> connection_view (fst (connect_backend openai_user listing_fails))
       = (True, [], [], [], None)
   \<and> dialogs (fst (connect_backend openai_user listing_fails))
       = [ShowError ''Error''
            ''Failed to fetch OpenAI models: Failed to fetch OpenAI models: Connection refused'']"
  by code_simp

text \<open>
  Claim C5, as the code has it. After a connect from the disconnected state that ends
  connected with a non-empty model list, the catalog is sorted and is also the filtered
  and the available list, and the selection is the stored default read through
  \<^verbatim>\<open>strip()\<close> when that text is non-empty and in the catalog, else the first model. So a
  selected model without blanks around it that is made the default is selected again by
  a later connect whose catalog has it.
\<close>

theorem connect_selects_default_or_first:
  "(\<not> is_connected s \<and> is_connected (fst (connect_backend s w))
      \<and> available_models (fst (connect_backend s w)) \<noteq> [] \<longrightarrow>
        sorted (all_models (fst (connect_backend s w)))
      \<and> filtered_models (fst (connect_backend s w)) = all_models (fst (connect_backend s w))
      \<and> available_models (fst (connect_backend s w)) = all_models (fst (connect_backend s w))
      \<and> selected_model (fst (connect_backend s w)) =
          Some (if strip (default_model_var s) \<noteq> []
                    \<and> strip (default_model_var s) \<in> set (all_models (fst (connect_backend s w)))
                then strip (default_model_var s)
                else hd (all_models (fst (connect_backend s w)))))
   \<and> (selected_model s = Some m \<and> m \<noteq> [] \<and> strip m = m
      \<and> is_connected (fst (connect_backend (disconnect_backend (fst (set_as_default_model s w0))) w))
      \<and> m \<in> set (all_models
                    (fst (connect_backend (disconnect_backend (fst (set_as_default_model s w0))) w)))
      \<longrightarrow> selected_model
             (fst (connect_backend (disconnect_backend (fst (set_as_default_model s w0))) w))
           = Some m)"
proof -
  have main: "sorted (all_models (fst (connect_backend t w)))
      \<and> filtered_models (fst (connect_backend t w)) = all_models (fst (connect_backend t w))
      \<and> available_models (fst (connect_backend t w)) = all_models (fst (connect_backend t w))
      \<and> selected_model (fst (connect_backend t w)) =
          Some (if strip (default_model_var t) \<noteq> []
                    \<and> strip (default_model_var t) \<in> set (all_models (fst (connect_backend t w)))
                then strip (default_model_var t)
                else hd (all_models (fst (connect_backend t w))))"
    if a: "\<not> is_connected t" "is_connected (fst (connect_backend t w))"
      and b: "available_models (fst (connect_backend t w)) \<noteq> []" for t
  proof -
    have ok: "bootstrap_ok t w \<and> validation_ok t w"
    proof (rule ccontr)
      assume "\<not> (bootstrap_ok t w \<and> validation_ok t w)"
      from connect_backend_failed [OF this] a show False
        by (simp add: connection_view_def)
    qed
    with connect_backend_catalog(2) [of t w] b
    obtain ms where ms: "all_models (fst (connect_backend t w)) = sort ms"
      "filtered_models (fst (connect_backend t w)) = sort ms"
      "available_models (fst (connect_backend t w)) = sort ms"
      "selected_model (fst (connect_backend t w)) =
         (case sort ms of
            [] \<Rightarrow> selected_model t
          | first_model # rest \<Rightarrow>
              Some (if strip (default_model_var t) \<noteq> []
                        \<and> strip (default_model_var t) \<in> set (sort ms)
                    then strip (default_model_var t) else first_model))"
      by auto
    from b ms(3) obtain x xs where sx: "sort ms = x # xs"
      by (cases "sort ms") auto
    have A: "sorted (all_models (fst (connect_backend t w)))"
      unfolding ms(1) by simp
    have B: "filtered_models (fst (connect_backend t w)) = all_models (fst (connect_backend t w))"
      and C: "available_models (fst (connect_backend t w)) = all_models (fst (connect_backend t w))"
      by (simp_all add: ms)
    have D: "selected_model (fst (connect_backend t w)) =
          Some (if strip (default_model_var t) \<noteq> []
                    \<and> strip (default_model_var t) \<in> set (all_models (fst (connect_backend t w)))
                then strip (default_model_var t)
                else hd (all_models (fst (connect_backend t w))))"
      unfolding ms(4) ms(1) sx by simp
    from A B C D show ?thesis by blast
  qed
  have again: "selected_model
        (fst (connect_backend (disconnect_backend (fst (set_as_default_model s w0))) w)) = Some m"
    if c: "selected_model s = Some m" "m \<noteq> []" "strip m = m"
      and d: "is_connected (fst (connect_backend (disconnect_backend (fst (set_as_default_model s w0))) w))"
      and e: "m \<in> set (all_models
                (fst (connect_backend (disconnect_backend (fst (set_as_default_model s w0))) w)))"
    for m
  proof -
    let ?t = "disconnect_backend (fst (set_as_default_model s w0))"
    have dm: "default_model_var ?t = m"
      using c
      by (simp add: set_as_default_model_def disconnect_backend_def truthy_def showinfo_def
            auto_save_settings_def store_current_credential_def update_models_display_def
            update_model_status_display_def update_default_model_display_def Let_def
            split: option.splits prod.splits)
    have dis: "\<not> is_connected ?t" "all_models ?t = []"
      by (simp_all add: disconnect_backend_def update_models_display_def
            update_model_status_display_def update_default_model_display_def Let_def)
    have ok: "bootstrap_ok ?t w \<and> validation_ok ?t w"
    proof (rule ccontr)
      assume "\<not> (bootstrap_ok ?t w \<and> validation_ok ?t w)"
      from connect_backend_failed [OF this] d dis show False
        by (simp add: connection_view_def)
    qed
    from connect_backend_catalog(2) [of ?t w] ok
    consider ms where "all_models (fst (connect_backend ?t w)) = sort ms"
        "available_models (fst (connect_backend ?t w)) = sort ms"
      | "all_models (fst (connect_backend ?t w)) = all_models ?t"
      by blast
    then have ne: "available_models (fst (connect_backend ?t w)) \<noteq> []"
    proof cases
      case 1
      then have "available_models (fst (connect_backend ?t w))
                   = all_models (fst (connect_backend ?t w))"
        by simp
      moreover from e have "all_models (fst (connect_backend ?t w)) \<noteq> []"
        by auto
      ultimately show ?thesis by simp
    next
      case 2
      with e dis(2) show ?thesis by simp
    qed
    from main [OF dis(1) d ne] e c dm show ?thesis by simp
  qed
  show ?thesis
    using main [of s] again by blast
qed

theorem connect_selects_default_or_first_witness:
  "\<not> is_connected padded_default_user
   \<and> is_connected (fst (connect_backend padded_default_user two_models))
   \<and> available_models (fst (connect_backend padded_default_user two_models)) \<noteq> []
   \<and> sorted (all_models (fst (connect_backend padded_default_user two_models)))
   \<and> selected_model (fst (connect_backend padded_default_user two_models)) = Some ''llava''"
proof -
  have 1: "\<not> is_connected padded_default_user
      \<and> is_connected (fst (connect_backend padded_default_user two_models))
      \<and> available_models (fst (connect_backend padded_default_user two_models)) \<noteq> []"
    by code_simp
  have 2: "selected_model (fst (connect_backend padded_default_user two_models)) = Some ''llava''"
    by code_simp
  show ?thesis
    using connect_selects_default_or_first [of padded_default_user two_models] 1 2
    by blast
qed

text \<open>
  Claim C5 as stated fails: the stored default \<^verbatim>\<open>llava\<close> followed by a blank is not a
  member of the fetched catalog, yet the connect selects \<^verbatim>\<open>llava\<close> and not the first
  model, \<^verbatim>\<open>bakllava\<close>.
\<close>

theorem padded_default_is_selected_stripped:
  "default_model_var padded_default_user = ''llava ''
   \<and> all_models (fst (connect_backend padded_default_user two_models))
       = [''bakllava'', ''llava'']
   \<and> selected_model (fst (connect_backend padded_default_user two_models)) = Some ''llava''"
  by code_simp

section \<open>The steps of a connect, and the key field, in plain terms\<close>

lemma bootstrap_ok_iff:
  "bootstrap_ok s w \<longleftrightarrow>
     (\<exists>d sid. net w (length (sent w))
                 \<lparr>req_method = POST,
                  req_url = rstrip_slash (swarmui_url_var s) @ ''/API/GetNewSession'',
                  req_headers = [(''Content-Type'', ''application/json'')],
                  req_json = Some [], req_timeout = 60\<rparr> = Json d
              \<and> j_session_id d = Some sid)"
  by (auto simp: bootstrap_ok_def session_step_def get_swarmui_session_def http_eq
        OllamaVisionAPI_def get_success_def failure_def empty_reply_def
        split: http_result.splits option.splits)

lemma validation_ok_external:
  assumes "backend_var s = ''openai'' \<or> backend_var s = ''openrouter''"
  shows "validation_ok s w \<longleftrightarrow> api_key_var s \<noteq> []"
proof -
  obtain r a w1 where st: "session_step s w = ((r, a), w1)"
    by (metis prod.exhaust)
  from assms show ?thesis
    by (auto simp: validation_ok_def st validate_backend_def with_session_fields truthy_def
          get_success_def empty_reply_def Let_def)
qed

lemma key_fields_kept:
  "backend_var (showerror t m s) = backend_var s"
  "api_key_var (showerror t m s) = api_key_var s"
  "backend_var (store_models ms s) = backend_var s"
  "api_key_var (store_models ms s) = api_key_var s"
  "backend_var (cleared s) = backend_var s"
  "api_key_var (cleared s) = api_key_var s"
  "backend_var (select_default_model s) = backend_var s"
  "api_key_var (select_default_model s) = api_key_var s"
  "backend_var (update_default_model_display s) = backend_var s"
  "api_key_var (update_default_model_display s) = api_key_var s"
  by (simp_all add: showerror_def store_models_def update_models_display_def cleared_def
        select_default_model_def update_model_status_display_def
        update_default_model_display_def Let_def split: list.splits)

lemma load_models_key_fields:
  "backend_var (fst (load_models s w)) = backend_var s
   \<and> api_key_var (fst (load_models s w)) = api_key_var s"
  using load_models_cases [of s w] by (auto simp: key_fields_kept)

lemma connect_backend_key_fields:
  "backend_var (fst (connect_backend s w)) = backend_var s
   \<and> api_key_var (fst (connect_backend s w)) = api_key_var s"
proof -
  obtain r a w1 where st: "session_step s w = ((r, a), w1)"
    by (metis prod.exhaust)
  obtain v w2 where vb: "validate_backend (with_session a s) a w1 = (v, w2)"
    by (metis prod.exhaust)
  show ?thesis
  proof (cases "get_success r")
    case False
    then show ?thesis
      by (simp add: connect_backend_unfold st key_fields_kept)
  next
    case True
    show ?thesis
    proof (cases v)
      case (Returned s3)
      with vb obtain m where "s3 = showerror ''Error'' m (with_session a s)"
        using validate_backend_Returned by blast
      with True Returned vb show ?thesis
        by (simp add: connect_backend_unfold st key_fields_kept with_session_fields)
    next
      case (Raised e)
      with True vb show ?thesis
        by (cases e) (simp add: connect_backend_unfold st key_fields_kept with_session_fields)
    next
      case (Result result)
      with True vb show ?thesis
        using load_models_key_fields [of "with_session a s" w2]
        by (simp add: connect_backend_unfold st key_fields_kept with_session_fields)
    qed
  qed
qed

text \<open>
  The handlers that do not write \<^verbatim>\<open>backend_var\<close> or \<^verbatim>\<open>api_key_var\<close> keep the key field
  consistent; those that write them establish it (see the section on settings).
\<close>

lemma key_field_consistent_kept:
  assumes "key_field_consistent s"
  shows "key_field_consistent (fst (connect_backend s w))"
    and "key_field_consistent (disconnect_backend s)"
    and "key_field_consistent (fst (toggle_connection s w))"
    and "key_field_consistent (fst (load_models s w))"
    and "key_field_consistent (set_model_search text s)"
    and "key_field_consistent (click_model i s)"
    and "key_field_consistent (fst (set_as_default_model s w))"
proof -
  show c: "key_field_consistent (fst (connect_backend s w))"
    using assms connect_backend_key_fields [of s w] by (simp add: key_field_consistent_def)
  show d: "key_field_consistent (disconnect_backend s)"
    using assms
    by (simp add: key_field_consistent_def disconnect_backend_def update_models_display_def
          update_model_status_display_def update_default_model_display_def Let_def)
  from c d show "key_field_consistent (fst (toggle_connection s w))"
    by (simp add: toggle_connection_def)
  show "key_field_consistent (fst (load_models s w))"
    using assms load_models_key_fields [of s w] by (simp add: key_field_consistent_def)
  show "key_field_consistent (set_model_search text s)"
    using assms
    by (simp add: key_field_consistent_def set_model_search_def filter_models_def
          update_models_display_def Let_def)
  show "key_field_consistent (click_model i s)"
    using assms
    by (simp add: key_field_consistent_def click_model_def on_model_select_def
          update_model_status_display_def Let_def)
  show "key_field_consistent (fst (set_as_default_model s w))"
    using assms
    by (auto simp: key_field_consistent_def set_as_default_model_def showwarning_def
          showinfo_def auto_save_settings_def store_current_credential_def
          update_model_status_display_def update_default_model_display_def Let_def
          split: option.splits prod.splits)
qed

section \<open>Generation requests and the API key\<close>

lemma snd_handled:
  "snd (case p of (Inl (Exception e), w') \<Rightarrow> (f e, w') | (Inr r, w') \<Rightarrow> (g r, w')) = snd p"
  by (auto split: prod.splits sum.splits exn.splits)

lemma load_models_without_key:
  assumes "backend_var s = ''openai'' \<or> backend_var s = ''openrouter''"
    and "api_key_var s = []"
  shows "load_models s w =
           (showerror ''Error''
              (if backend_var s = ''openai'' then ''API key is required for OpenAI''
               else ''API key is required for OpenRouter'') (cleared s), w)"
  using assms by (auto simp: load_models_def Let_def truthy_def cleared_def)

lemma validate_backend_without_key:
  assumes "backend_var s = ''openai'' \<or> backend_var s = ''openrouter''"
    and "api_key_var s = []"
  shows "validate_backend s a w =
           (Returned (showerror ''Error'' ''API key is required for external APIs'' s), w)"
  using assms by (auto simp: validate_backend_def Let_def truthy_def)

lemma sent_analyze_single_image:
  assumes "api s = Some a" and "current_image_data s = Some img" and "img \<noteq> []"
    and "available_models s \<noteq> []" and "get_selected_model s = Some m" and "m \<noteq> []"
  shows "sent (snd (analyze_single_image P s w)) =
           sent w @ [\<lparr>req_method = POST, req_url = base_url a @ ''/API/AnalyzeImageAsync'',
              req_headers = headers a,
              req_json = Some (data_with_session a
                (analyze_image_data img m (backend_var s) (prompt_var s) (temperature_var s)
                   (max_tokens_var s) (ollama_url_var s) (api_key_argument s)
                   default_site_name
                   (if wan_i2v_var s then Some (wan_i2v_system_prompt P) else None))),
              req_timeout = 120\<rparr>]"
  using assms
  by (simp add: analyze_single_image_def analyze_image_thread_def analyze_image_def
        truthy_def Let_def snd_handled sent_make_request)

lemma sent_process_batch:
  assumes "api s = Some a" and "folder_path_var s \<noteq> []"
    and "available_models s \<noteq> []" and "get_selected_model s = Some m" and "m \<noteq> []"
    and "listdir w (folder_path_var s) = Inr files" and "filter is_image_file files \<noteq> []"
  shows "sent (snd (process_batch s w)) =
           sent w @ [\<lparr>req_method = POST,
              req_url = base_url a @ ''/API/BatchCaptionImagesAsync'',
              req_headers = headers a,
              req_json = Some (data_with_session a
                (batch_caption_images_data (folder_path_var s) m (backend_var s)
                   (caption_style_var s) (trigger_word_var s) (temperature_var s)
                   (max_tokens_var s) (ollama_url_var s) (api_key_argument s)
                   default_site_name)),
              req_timeout = 120\<rparr>]"
  using assms
  by (simp add: process_batch_def process_batch_thread_def batch_caption_images_def
        truthy_def Let_def snd_handled sent_make_request)

lemma sent_enhance_text:
  assumes "api s = Some a" and "available_models s \<noteq> []"
    and "get_selected_model s = Some m" and "m \<noteq> []" and "strip (text_input s) \<noteq> []"
  shows "sent (snd (enhance_text P s w)) =
           sent w @ [\<lparr>req_method = POST,
              req_url = base_url a @ ''/API/EnhanceTextPromptAsync'',
              req_headers = headers a,
              req_json = Some (data_with_session a
                (enhance_text_prompt_data m (backend_var s) (strip (text_input s))
                   (temperature_var s) (max_tokens_var s) (ollama_url_var s)
                   (api_key_argument s) default_site_name
                   (Some (get_enhancement_system_prompt P (enhancement_type_var s))))),
              req_timeout = 120\<rparr>]"
  using assms
  by (simp add: enhance_text_def enhance_text_thread_def enhance_text_prompt_def
        truthy_def Let_def snd_handled sent_make_request)

text \<open>
  Claim C4, as the code has it. With OpenAI or OpenRouter as backend and an empty key
  field, listing the models, and the validation step of a connect, end in an error box
  before any request is sent. Analyze image, batch caption and enhance text do not look at
  the key: once their own inputs are there (an image; a folder that holds an image file; a
  text), a model list is loaded and a model is selected, each sends its request, and for
  OpenAI and OpenRouter the key argument of that request is the content of the key field,
  empty or not.
\<close>

theorem key_checked_by_listing_only:
  "((backend_var s = ''openai'' \<or> backend_var s = ''openrouter'') \<and> api_key_var s = [] \<longrightarrow>
       sent (snd (load_models s w)) = sent w
     \<and> dialogs (fst (load_models s w)) =
         dialogs s @ [ShowError ''Error''
           (if backend_var s = ''openai'' then ''API key is required for OpenAI''
            else ''API key is required for OpenRouter'')]
     \<and> validate_backend s a w =
         (Returned (showerror ''Error'' ''API key is required for external APIs'' s), w))
   \<and> (api s = Some a \<and> current_image_data s = Some img \<and> img \<noteq> []
        \<and> available_models s \<noteq> [] \<and> get_selected_model s = Some m \<and> m \<noteq> [] \<longrightarrow>
       sent (snd (analyze_single_image P s w)) =
         sent w @ [\<lparr>req_method = POST, req_url = base_url a @ ''/API/AnalyzeImageAsync'',
            req_headers = headers a,
            req_json = Some (data_with_session a
              (analyze_image_data img m (backend_var s) (prompt_var s) (temperature_var s)
                 (max_tokens_var s) (ollama_url_var s) (api_key_argument s)
                 default_site_name
                 (if wan_i2v_var s then Some (wan_i2v_system_prompt P) else None))),
            req_timeout = 120\<rparr>])
   \<and> (api s = Some a \<and> folder_path_var s \<noteq> [] \<and> available_models s \<noteq> []
        \<and> get_selected_model s = Some m \<and> m \<noteq> []
        \<and> listdir w (folder_path_var s) = Inr files \<and> filter is_image_file files \<noteq> [] \<longrightarrow>
       sent (snd (process_batch s w)) =
         sent w @ [\<lparr>req_method = POST,
            req_url = base_url a @ ''/API/BatchCaptionImagesAsync'',
            req_headers = headers a,
            req_json = Some (data_with_session a
              (batch_caption_images_data (folder_path_var s) m (backend_var s)
                 (caption_style_var s) (trigger_word_var s) (temperature_var s)
                 (max_tokens_var s) (ollama_url_var s) (api_key_argument s)
                 default_site_name)),
            req_timeout = 120\<rparr>])
   \<and> (api s = Some a \<and> available_models s \<noteq> [] \<and> get_selected_model s = Some m
        \<and> m \<noteq> [] \<and> strip (text_input s) \<noteq> [] \<longrightarrow>
       sent (snd (enhance_text P s w)) =
         sent w @ [\<lparr>req_method = POST,
            req_url = base_url a @ ''/API/EnhanceTextPromptAsync'',
            req_headers = headers a,
            req_json = Some (data_with_session a
              (enhance_text_prompt_data m (backend_var s) (strip (text_input s))
                 (temperature_var s) (max_tokens_var s) (ollama_url_var s)
                 (api_key_argument s) default_site_name
                 (Some (get_enhancement_system_prompt P (enhancement_type_var s))))),
            req_timeout = 120\<rparr>])
   \<and> (backend_var s = ''openai'' \<or> backend_var s = ''openrouter'' \<longrightarrow>
        api_key_argument s = Some (api_key_var s))"
proof (intro conjI impI)
  assume k: "(backend_var s = ''openai'' \<or> backend_var s = ''openrouter'') \<and> api_key_var s = []"
  then show "sent (snd (load_models s w)) = sent w"
    by (simp add: load_models_without_key)
  from k show "dialogs (fst (load_models s w)) =
         dialogs s @ [ShowError ''Error''
           (if backend_var s = ''openai'' then ''API key is required for OpenAI''
            else ''API key is required for OpenRouter'')]"
    by (simp add: load_models_without_key showerror_def cleared_def)
  from k show "validate_backend s a w =
         (Returned (showerror ''Error'' ''API key is required for external APIs'' s), w)"
    by (simp add: validate_backend_without_key)
next
  assume "api s = Some a \<and> current_image_data s = Some img \<and> img \<noteq> []
        \<and> available_models s \<noteq> [] \<and> get_selected_model s = Some m \<and> m \<noteq> []"
  then show "sent (snd (analyze_single_image P s w)) =
         sent w @ [\<lparr>req_method = POST, req_url = base_url a @ ''/API/AnalyzeImageAsync'',
            req_headers = headers a,
            req_json = Some (data_with_session a
              (analyze_image_data img m (backend_var s) (prompt_var s) (temperature_var s)
                 (max_tokens_var s) (ollama_url_var s) (api_key_argument s)
                 default_site_name
                 (if wan_i2v_var s then Some (wan_i2v_system_prompt P) else None))),
            req_timeout = 120\<rparr>]"
    using sent_analyze_single_image by blast
next
  assume "api s = Some a \<and> folder_path_var s \<noteq> [] \<and> available_models s \<noteq> []
        \<and> get_selected_model s = Some m \<and> m \<noteq> []
        \<and> listdir w (folder_path_var s) = Inr files \<and> filter is_image_file files \<noteq> []"
  then show "sent (snd (process_batch s w)) =
         sent w @ [\<lparr>req_method = POST,
            req_url = base_url a @ ''/API/BatchCaptionImagesAsync'',
            req_headers = headers a,
            req_json = Some (data_with_session a
              (batch_caption_images_data (folder_path_var s) m (backend_var s)
                 (caption_style_var s) (trigger_word_var s) (temperature_var s)
                 (max_tokens_var s) (ollama_url_var s) (api_key_argument s)
                 default_site_name)),
            req_timeout = 120\<rparr>]"
    using sent_process_batch by blast
next
  assume "api s = Some a \<and> available_models s \<noteq> [] \<and> get_selected_model s = Some m
        \<and> m \<noteq> [] \<and> strip (text_input s) \<noteq> []"
  then show "sent (snd (enhance_text P s w)) =
         sent w @ [\<lparr>req_method = POST,
            req_url = base_url a @ ''/API/EnhanceTextPromptAsync'',
            req_headers = headers a,
            req_json = Some (data_with_session a
              (enhance_text_prompt_data m (backend_var s) (strip (text_input s))
                 (temperature_var s) (max_tokens_var s) (ollama_url_var s)
                 (api_key_argument s) default_site_name
                 (Some (get_enhancement_system_prompt P (enhancement_type_var s))))),
            req_timeout = 120\<rparr>]"
    using sent_enhance_text by blast
next
  assume "backend_var s = ''openai'' \<or> backend_var s = ''openrouter''"
  then show "api_key_argument s = Some (api_key_var s)"
    by (auto simp: api_key_argument_def)
qed

theorem key_checked_by_listing_only_witness:
  "sent (snd (load_models (fst key_cleared) (snd key_cleared))) = sent (snd key_cleared)
   \<and> api_key_argument (fst key_cleared) = Some []
   \<and> length (sent (snd (analyze_single_image example_prompts (fst key_cleared)
                          (snd key_cleared))))
       = Suc (length (sent (snd key_cleared)))"
proof -
  have h: "(backend_var (fst key_cleared) = ''openai''
             \<or> backend_var (fst key_cleared) = ''openrouter'')
           \<and> api_key_var (fst key_cleared) = []"
    by code_simp
  have g: "api (fst key_cleared)
             = Some ((OllamaVisionAPI ''http://localhost:7801'')\<lparr>session_id := Some ''S1''\<rparr>)
           \<and> current_image_data (fst key_cleared) = Some ''data:image/png;base64,AAAA''
           \<and> ''data:image/png;base64,AAAA'' \<noteq> []
           \<and> available_models (fst key_cleared) \<noteq> []
           \<and> get_selected_model (fst key_cleared) = Some ''gpt-4o'' \<and> ''gpt-4o'' \<noteq> []"
    by code_simp
  show ?thesis
    using key_checked_by_listing_only
      [where s = "fst key_cleared" and w = "snd key_cleared" and P = example_prompts
         and a = "(OllamaVisionAPI ''http://localhost:7801'')\<lparr>session_id := Some ''S1''\<rparr>"
         and img = "''data:image/png;base64,AAAA''" and m = "''gpt-4o''" and files = "[]"]
      h g
    by simp
qed

text \<open>
  Claim C4 as stated fails: the OpenAI user connects, empties the key field and asks for
  the analysis of an image. No error is shown; the analysis request goes to the gateway
  with an empty \<^verbatim>\<open>apiKey\<close>, and its answer is displayed.
\<close>

theorem analysis_sent_with_empty_key:
  "backend_var (fst key_cleared) = ''openai''
   \<and> api_key_var (fst key_cleared) = []
   \<and> dialogs (fst analysis_without_key) = []
   \<and> map req_url (sent (snd analysis_without_key))
       = [''http://localhost:7801/API/GetNewSession'', ''https://api.openai.com/v1/models'',
          ''http://localhost:7801/API/AnalyzeImageAsync'']
   \<and> body_sent (snd analysis_without_key)
       = Some [(''model'', JStr ''gpt-4o''), (''backendType'', JStr ''openai''),
               (''imageData'', JStr ''data:image/png;base64,AAAA''),
               (''prompt'', JStr ''Describe this image in detail''),
               (''temperature'', JFloat 0.8), (''maxTokens'', JInt 500),
               (''apiKey'', JStr []), (''session_id'', JStr ''S1'')]
   \<and> image_analysis_text (fst analysis_without_key) = ''A cat.''"
  by code_simp

end
